theory Spec2Isabelle
  imports Complex_Main "HOL-Library.Sublist"
begin

text \<open>
  The matching engine of the meal-image mapping Lambda function: the vegetarian
  classifier of \<^verbatim>\<open>vegetarian-detection.js\<close> and, from \<^verbatim>\<open>index.js\<close>, the two similarity
  scores, the match selector \<^verbatim>\<open>findBestImageMatch\<close>, the batch \<^verbatim>\<open>processMealBatch\<close>
  and the \<^verbatim>\<open>handler\<close>. Exceptions are values of a sum type (\<open>Inl\<close> the exception);
  the module-level variables and the collaborators (S3, Firestore, the embedding
  provider, the Lambda context) are arguments.
\<close>

section \<open>Strings\<close>

text \<open>
  JavaScript strings are modelled as \<^typ>\<open>string\<close>, a list of 8-bit characters: the
  code units U+0000 to U+00FF of a JavaScript string (the Latin-1 range). All keyword
  tables of the program lie in that range. An optional field of a JSON object
  (\<^verbatim>\<open>undefined\<close> when absent) is a \<^typ>\<open>string option\<close>.
\<close>

definition toLowerCase_char :: "char \<Rightarrow> char" where
  \<comment> \<open>\<^verbatim>\<open>String.prototype.toLowerCase\<close> on one code unit below U+0100: A-Z and the
      Latin-1 capitals U+00C0-U+00D6, U+00D8-U+00DE move up by 32.\<close>
  "toLowerCase_char c =
     (let n = (of_char c :: nat)
      in if (65 \<le> n \<and> n \<le> 90) \<or> (192 \<le> n \<and> n \<le> 214) \<or> (216 \<le> n \<and> n \<le> 222)
         then char_of (n + 32) else c)"

definition toLowerCase :: "string \<Rightarrow> string" where
  "toLowerCase s = map toLowerCase_char s"

fun startsWith :: "string \<Rightarrow> string \<Rightarrow> bool" where
  "startsWith t [] = True"
| "startsWith [] (d # ds) = False"
| "startsWith (c # cs) (d # ds) = (c = d \<and> startsWith cs ds)"

fun str_includes :: "string \<Rightarrow> string \<Rightarrow> bool" where
  \<comment> \<open>\<^verbatim>\<open>text.includes(indicator)\<close>: the indicator occurs at some position of the text.\<close>
  "str_includes [] n = (n = [])"
| "str_includes (c # cs) n = (startsWith (c # cs) n \<or> str_includes cs n)"

definition or_empty :: "string option \<Rightarrow> string" where
  \<comment> \<open>\<^verbatim>\<open>x || ''\<close> for an optional string.\<close>
  "or_empty x = (case x of None \<Rightarrow> [] | Some s \<Rightarrow> s)"

definition falsy :: "string option \<Rightarrow> bool" where
  \<comment> \<open>\<^verbatim>\<open>!x\<close> for an optional string: \<^verbatim>\<open>undefined\<close> and the empty string.\<close>
  "falsy x = (case x of None \<Rightarrow> True | Some s \<Rightarrow> s = [])"

section \<open>Vegetarian detection (vegetarian-detection.js)\<close>

definition VEGETARIAN_INDICATORS :: "string list" where
  "VEGETARIAN_INDICATORS = [
    ''paneer'', ''tofu'', ''soy'', ''beans'', ''lentils'', ''dal'', ''chickpeas'',
    ''rajma'', ''chana'', ''moong'', ''masoor'', ''urad'', ''toor'', ''black beans'',
    ''kidney beans'', ''white beans'', ''tempeh'', ''seitan'', ''quinoa'', ''nuts'',
    ''almonds'', ''cashews'', ''peanuts'', ''vegetable'', ''veggie'', ''potato'',
    ''onion'', ''tomato'', ''carrot'', ''spinach'', ''palak'', ''cabbage'',
    ''cauliflower'', ''broccoli'', ''peas'', ''corn'', ''bell pepper'', ''capsicum'',
    ''eggplant'', ''brinjal'', ''okra'', ''lady finger'', ''bitter gourd'',
    ''bottle gourd'', ''ridge gourd'', ''snake gourd'', ''pumpkin'', ''sweet potato'',
    ''beetroot'', ''radish'', ''cucumber'', ''lettuce'', ''cabbage'', ''mushroom'',
    ''ginger'', ''garlic'', ''coriander'', ''mint'', ''curry leaves'', ''fenugreek'',
    ''methi'', ''dill'', ''basil'', ''oregano'', ''rice'', ''wheat'', ''flour'', ''atta'',
    ''maida'', ''semolina'', ''rava'', ''sooji'', ''oats'', ''barley'', ''millet'',
    ''bajra'', ''jowar'', ''ragi'', ''corn flour'', ''milk'', ''curd'', ''yogurt'',
    ''dahi'', ''butter'', ''ghee'', ''cheese'', ''cream'', ''buttermilk'', ''lassi'',
    ''paneer'', ''cottage cheese'', ''turmeric'', ''cumin'', ''coriander'', ''cardamom'',
    ''cinnamon'', ''cloves'', ''pepper'', ''chili'', ''red chili'', ''green chili'',
    ''mustard'', ''fenugreek'', ''asafoetida'', ''hing'', ''bay leaves'', ''curry leaves'',
    ''mint leaves'', ''coriander leaves'', ''steamed'', ''boiled'', ''roasted'',
    ''grilled'', ''baked'', ''stir-fried'', (''saut'' @ [CHR 0xE9] @ ''ed''),
    ''vegetarian'', ''veggie'', ''vegan'', ''sabzi'', ''subzi'', ''curry'', ''masala'',
    ''tikka'', ''biryani'', ''pulao'', ''fried rice'', ''noodles'', ''pasta'',
    ''sandwich'', ''wrap'', ''salad'', ''soup'', ''stew'', ''gravy'', ''sauce'',
    ''chutney'', ''pickle'', ''raita'', ''dal'', ''sambar'', ''rasam'', ''kadhi'',
    ''korma'', ''butter masala'', ''tikka masala'', ''palak paneer'', ''mutter paneer'',
    ''chana masala'', ''rajma masala'', ''aloo gobi'', ''baingan bharta'', ''aloo matar'',
    ''mushroom curry'', ''vegetable biryani'', ''paneer biryani'', ''mushroom biryani'',
    ''vegetable pulao'', ''jeera rice'', ''coconut rice'', ''lemon rice'',
    ''tamarind rice'', ''curd rice'', ''bisi bele bath'', ''upma'', ''poha'', ''idli'',
    ''dosa'', ''uttapam'', ''pancake'', ''paratha'', ''roti'', ''naan'', ''kulcha'',
    ''poori'', ''chapati'', ''phulka'', ''thepla'', ''methi thepla'', ''aloo paratha'',
    ''gobi paratha'', ''paneer paratha'', ''onion paratha'', ''apple'', ''banana'',
    ''orange'', ''mango'', ''grapes'', ''strawberry'', ''blueberry'', ''pineapple'',
    ''papaya'', ''guava'', ''pomegranate'', ''watermelon'', ''muskmelon'', ''coconut'',
    ''dates'', ''figs'', ''raisins'', ''dry fruits'', ''nuts'', ''tea'', ''coffee'',
    ''milk'', ''lassi'', ''buttermilk'', ''juice'', ''smoothie'', ''lemonade'',
    ''coconut water'', ''tender coconut'']"

definition NON_VEGETARIAN_INDICATORS :: "string list" where
  "NON_VEGETARIAN_INDICATORS = [
    ''chicken'', ''mutton'', ''lamb'', ''beef'', ''pork'', ''duck'', ''turkey'', ''goat'',
    ''meat'', ''flesh'', ''protein'', ''animal'', ''fish'', ''salmon'', ''tuna'',
    ''prawn'', ''shrimp'', ''crab'', ''lobster'', ''oyster'', ''mussel'', ''clam'',
    ''squid'', ''octopus'', ''seafood'', ''marine'', ''sea food'', ''egg'', ''eggs'',
    ''omelette'', ''scrambled'', ''boiled egg'', ''fried egg'', ''egg curry'',
    ''egg biryani'', ''egg roll'', ''egg sandwich'', ''non-vegetarian'', ''non veg'',
    ''nonveg'', ''nonvegetarian'', ''meat curry'', ''chicken curry'', ''mutton curry'',
    ''fish curry'', ''prawn curry'', ''egg curry'', ''chicken biryani'',
    ''mutton biryani'', ''fish biryani'', ''prawn biryani'', ''egg biryani'',
    ''chicken tikka'', ''mutton tikka'', ''fish tikka'', ''prawn tikka'',
    ''chicken masala'', ''mutton masala'', ''fish masala'', ''prawn masala'',
    ''chicken korma'', ''mutton korma'', ''fish korma'', ''prawn korma'',
    ''chicken tandoori'', ''mutton tandoori'', ''fish tandoori'', ''prawn tandoori'',
    ''chicken 65'', ''mutton 65'', ''fish 65'', ''prawn 65'', ''chicken lollipop'',
    ''mutton seekh'', ''fish fry'', ''prawn fry'', ''chicken fry'', ''mutton fry'',
    ''chicken roll'', ''mutton roll'', ''fish roll'', ''prawn roll'', ''egg roll'',
    ''chicken sandwich'', ''mutton sandwich'', ''fish sandwich'', ''prawn sandwich'',
    ''egg sandwich'', ''chicken burger'', ''mutton burger'', ''fish burger'',
    ''prawn burger'', ''egg burger'', ''chicken pizza'', ''mutton pizza'', ''fish pizza'',
    ''prawn pizza'', ''egg pizza'', ''chicken pasta'', ''mutton pasta'', ''fish pasta'',
    ''prawn pasta'', ''egg pasta'', ''chicken noodles'', ''mutton noodles'',
    ''fish noodles'', ''prawn noodles'', ''egg noodles'', ''chicken soup'',
    ''mutton soup'', ''fish soup'', ''prawn soup'', ''egg soup'', ''chicken stew'',
    ''mutton stew'', ''fish stew'', ''prawn stew'', ''egg stew'', ''chicken gravy'',
    ''mutton gravy'', ''fish gravy'', ''prawn gravy'', ''egg gravy'', ''chicken sauce'',
    ''mutton sauce'', ''fish sauce'', ''prawn sauce'', ''egg sauce'', ''chicken chutney'',
    ''mutton chutney'', ''fish chutney'', ''prawn chutney'', ''egg chutney'',
    ''chicken pickle'', ''mutton pickle'', ''fish pickle'', ''prawn pickle'',
    ''egg pickle'', ''chicken raita'', ''mutton raita'', ''fish raita'', ''prawn raita'',
    ''egg raita'', ''grilled chicken'', ''roasted chicken'', ''baked chicken'',
    ''fried chicken'', ''steamed fish'', ''grilled fish'', ''roasted fish'',
    ''baked fish'', ''fried fish'', ''grilled mutton'', ''roasted mutton'',
    ''baked mutton'', ''fried mutton'', ''grilled prawn'', ''roasted prawn'',
    ''baked prawn'', ''fried prawn'', ''grilled egg'', ''roasted egg'', ''baked egg'',
    ''fried egg'', ''butter chicken'', ''chicken tikka masala'', ''mutton tikka masala'',
    ''fish tikka masala'', ''prawn tikka masala'', ''egg tikka masala'', ''chicken korma'',
    ''mutton korma'', ''fish korma'', ''prawn korma'', ''egg korma'', ''chicken vindaloo'',
    ''mutton vindaloo'', ''fish vindaloo'', ''prawn vindaloo'', ''egg vindaloo'',
    ''chicken jalfrezi'', ''mutton jalfrezi'', ''fish jalfrezi'', ''prawn jalfrezi'',
    ''egg jalfrezi'', ''chicken dopiaza'', ''mutton dopiaza'', ''fish dopiaza'',
    ''prawn dopiaza'', ''egg dopiaza'', ''chicken makhani'', ''mutton makhani'',
    ''fish makhani'', ''prawn makhani'', ''egg makhani'', ''chicken kadai'',
    ''mutton kadai'', ''fish kadai'', ''prawn kadai'', ''egg kadai'',
    ''chicken chettinad'', ''mutton chettinad'', ''fish chettinad'', ''prawn chettinad'',
    ''egg chettinad'', ''chicken hyderabadi'', ''mutton hyderabadi'', ''fish hyderabadi'',
    ''prawn hyderabadi'', ''egg hyderabadi'', ''chicken kerala'', ''mutton kerala'',
    ''fish kerala'', ''prawn kerala'', ''egg kerala'', ''chicken goan'', ''mutton goan'',
    ''fish goan'', ''prawn goan'', ''egg goan'', ''chicken bengali'', ''mutton bengali'',
    ''fish bengali'', ''prawn bengali'', ''egg bengali'', ''chicken punjabi'',
    ''mutton punjabi'', ''fish punjabi'', ''prawn punjabi'', ''egg punjabi'',
    ''chicken south indian'', ''mutton south indian'', ''fish south indian'',
    ''prawn south indian'', ''egg south indian'', ''chicken north indian'',
    ''mutton north indian'', ''fish north indian'', ''prawn north indian'',
    ''egg north indian'', ''chicken west indian'', ''mutton west indian'',
    ''fish west indian'', ''prawn west indian'', ''egg west indian'',
    ''chicken east indian'', ''mutton east indian'', ''fish east indian'',
    ''prawn east indian'', ''egg east indian'']"

definition STRONG_VEGETARIAN_INDICATORS :: "string list" where
  "STRONG_VEGETARIAN_INDICATORS = [
    ''vegetarian'', ''veggie'', ''vegan'', ''pure veg'', ''pure vegetarian'', ''sattvic'',
    ''jain'', ''brahmin'', ''pure veg restaurant'']"

definition STRONG_NON_VEGETARIAN_INDICATORS :: "string list" where
  "STRONG_NON_VEGETARIAN_INDICATORS = [
    ''non-vegetarian'', ''non veg'', ''nonveg'', ''nonvegetarian'', ''meat'', ''chicken'',
    ''mutton'', ''fish'', ''prawn'', ''egg'', ''seafood'', ''maas'']"

definition count_indicators :: "string \<Rightarrow> string list \<Rightarrow> nat" where
  \<comment> \<open>The counting loops: one increment for every list entry (repeated entries
      included) that the text contains.\<close>
  "count_indicators text indicators = length (filter (str_includes text) indicators)"

definition classify_text :: "string \<Rightarrow> bool" where
  \<comment> \<open>The body shared by \<^verbatim>\<open>detectMealVegetarian\<close> and \<^verbatim>\<open>detectImageVegetarian\<close>
      once \<^verbatim>\<open>text\<close> is built.\<close>
  "classify_text text =
     (if list_ex (str_includes text) STRONG_NON_VEGETARIAN_INDICATORS then False
      else if list_ex (str_includes text) STRONG_VEGETARIAN_INDICATORS then True
      else
        (let vegetarianScore = count_indicators text VEGETARIAN_INDICATORS;
             nonVegetarianScore = count_indicators text NON_VEGETARIAN_INDICATORS
         in if vegetarianScore = 0 \<and> nonVegetarianScore = 0 then True
            else vegetarianScore \<ge> nonVegetarianScore))"

definition meal_text :: "string \<Rightarrow> string option \<Rightarrow> string" where
  "meal_text mealName description = toLowerCase (mealName @ '' '' @ or_empty description)"

definition detectMealVegetarian :: "string \<Rightarrow> string option \<Rightarrow> bool" where
  "detectMealVegetarian mealName description =
     (if mealName = [] then True
      else classify_text (meal_text mealName description))"

definition image_text :: "string \<Rightarrow> string option \<Rightarrow> string option \<Rightarrow> string" where
  "image_text imageUrl imageName description =
     toLowerCase (imageUrl @ '' '' @ or_empty imageName @ '' '' @ or_empty description)"

definition detectImageVegetarian :: "string option \<Rightarrow> string option \<Rightarrow> string option \<Rightarrow> bool" where
  "detectImageVegetarian imageUrl imageName description =
     (if falsy imageUrl then True
      else classify_text (image_text (or_empty imageUrl) imageName description))"

section \<open>Numbers\<close>

text \<open>
  A JavaScript number is a finite value, an infinity or NaN. The range of the IEEE
  doubles is part of the model: a finite result at or beyond \<open>2^1024 - 2^970\<close> (the
  largest double plus half a unit in its last place) is an infinity, and a product or a
  quotient of magnitude at most \<open>2^-1075\<close> (half the smallest subnormal) is \<open>0\<close>. A sum
  of doubles is never that small without being \<open>0\<close>, so addition only overflows. Inside
  the range a result is the exact real: rounding to 53 bits is not part of the model,
  and \<^verbatim>\<open>-0\<close> is identified with \<^verbatim>\<open>0\<close>. \<^verbatim>\<open>JSON.parse\<close> yields \<^verbatim>\<open>Infinity\<close> for a
  literal such as \<^verbatim>\<open>1e999\<close>, so an embedding read from JSON can hold an infinity.
\<close>

datatype jsnum = Num real | PInf | NInf | NaN

definition inf_of_sign :: "real \<Rightarrow> jsnum" where
  "inf_of_sign s = (if 0 < s then PInf else if s < 0 then NInf else NaN)"

definition overflow_threshold :: real where
  "overflow_threshold = 2 ^ 1024 - 2 ^ 970"

definition underflow_threshold :: real where
  "underflow_threshold = 1 / 2 ^ 1075"

definition overflow :: "real \<Rightarrow> jsnum" where
  "overflow r = (if overflow_threshold \<le> r then PInf
                 else if r \<le> - overflow_threshold then NInf
                 else Num r)"

definition underflow :: "real \<Rightarrow> real" where
  "underflow r = (if \<bar>r\<bar> \<le> underflow_threshold then 0 else r)"

definition to_double :: "real \<Rightarrow> jsnum" where
  "to_double r = overflow (underflow r)"

fun js_add :: "jsnum \<Rightarrow> jsnum \<Rightarrow> jsnum" where
  "js_add (Num a) (Num b) = overflow (a + b)"
| "js_add NaN y = NaN"
| "js_add x NaN = NaN"
| "js_add PInf NInf = NaN"
| "js_add NInf PInf = NaN"
| "js_add PInf y = PInf"
| "js_add NInf y = NInf"
| "js_add (Num a) y = y"

fun js_mul :: "jsnum \<Rightarrow> jsnum \<Rightarrow> jsnum" where
  "js_mul (Num a) (Num b) = to_double (a * b)"
| "js_mul NaN y = NaN"
| "js_mul x NaN = NaN"
| "js_mul (Num a) PInf = inf_of_sign a"
| "js_mul (Num a) NInf = inf_of_sign (- a)"
| "js_mul PInf (Num b) = inf_of_sign b"
| "js_mul NInf (Num b) = inf_of_sign (- b)"
| "js_mul PInf PInf = PInf"
| "js_mul NInf NInf = PInf"
| "js_mul PInf NInf = NInf"
| "js_mul NInf PInf = NInf"

fun js_div :: "jsnum \<Rightarrow> jsnum \<Rightarrow> jsnum" where
  "js_div (Num a) (Num b) = (if b = 0 then inf_of_sign a else to_double (a / b))"
| "js_div NaN y = NaN"
| "js_div x NaN = NaN"
| "js_div (Num a) y = Num 0"
| "js_div PInf (Num b) = (if b < 0 then NInf else PInf)"
| "js_div NInf (Num b) = (if b < 0 then PInf else NInf)"
| "js_div x y = NaN"

fun js_sqrt :: "jsnum \<Rightarrow> jsnum" where
  "js_sqrt (Num a) = (if a < 0 then NaN else Num (sqrt a))"
| "js_sqrt PInf = PInf"
| "js_sqrt NInf = NaN"
| "js_sqrt NaN = NaN"

fun js_ge :: "jsnum \<Rightarrow> jsnum \<Rightarrow> bool" where
  "js_ge (Num a) (Num b) = (a \<ge> b)"
| "js_ge NaN y = False"
| "js_ge x NaN = False"
| "js_ge PInf y = True"
| "js_ge x NInf = True"
| "js_ge x y = False"

fun js_gt :: "jsnum \<Rightarrow> jsnum \<Rightarrow> bool" where
  "js_gt (Num a) (Num b) = (a > b)"
| "js_gt NaN y = False"
| "js_gt x NaN = False"
| "js_gt PInf PInf = False"
| "js_gt NInf NInf = False"
| "js_gt PInf y = True"
| "js_gt x NInf = True"
| "js_gt x y = False"

definition or_default :: "jsnum \<Rightarrow> jsnum \<Rightarrow> jsnum" where
  \<comment> \<open>\<^verbatim>\<open>x || d\<close> for a number: \<^verbatim>\<open>0\<close> and \<^verbatim>\<open>NaN\<close> are falsy.\<close>
  "or_default x d = (if x = NaN \<or> x = Num 0 then d else x)"

section \<open>Configuration and errors (index.js)\<close>

record environment =
  env_COSINE_SIMILARITY_THRESHOLD :: jsnum  \<comment> \<open>\<^verbatim>\<open>parseFloat\<close> of the variable, NaN when unset\<close>
  env_TEXT_SIMILARITY_THRESHOLD :: jsnum
  env_MAX_MEALS_PER_BATCH :: "nat option"
    \<comment> \<open>\<^verbatim>\<open>parseInt\<close> of the variable, \<open>None\<close> for NaN; a negative size is not modelled\<close>

record config =
  COSINE_SIMILARITY_THRESHOLD :: jsnum
  TEXT_SIMILARITY_THRESHOLD :: jsnum
  MAX_MEALS_PER_BATCH :: nat

definition CONFIG :: "environment \<Rightarrow> config" where
  "CONFIG env =
     \<lparr> COSINE_SIMILARITY_THRESHOLD = or_default (env_COSINE_SIMILARITY_THRESHOLD env) (Num 0.2),
       TEXT_SIMILARITY_THRESHOLD = or_default (env_TEXT_SIMILARITY_THRESHOLD env) (Num 0.2),
       MAX_MEALS_PER_BATCH =
         (case env_MAX_MEALS_PER_BATCH env of None \<Rightarrow> 50 | Some n \<Rightarrow> if n = 0 then 50 else n) \<rparr>"

datatype js_error =
    Error string  \<comment> \<open>\<^verbatim>\<open>new Error(message)\<close> raised by a collaborator\<close>
  | Vector_length_mismatch nat nat  \<comment> \<open>\<^verbatim>\<open>Vector length mismatch: m vs n\<close>\<close>
  | TypeError_null string  \<comment> \<open>reading the named property of \<^verbatim>\<open>null\<close>\<close>
  | TypeError_undefined string  \<comment> \<open>reading the named property of \<^verbatim>\<open>undefined\<close>\<close>
  | TypeError_primitive  \<comment> \<open>\<^verbatim>\<open>Cannot convert object to primitive value\<close>\<close>

section \<open>Similarity scores (index.js)\<close>

definition cosine_sums :: "jsnum list \<Rightarrow> jsnum list \<Rightarrow> jsnum \<times> jsnum \<times> jsnum" where
  \<comment> \<open>The accumulation loop: \<open>(dotProduct, normA, normB)\<close> after the last index.\<close>
  "cosine_sums vectorA vectorB =
     fold (\<lambda>(x, y) (dotProduct, normA, normB).
             (js_add dotProduct (js_mul x y), js_add normA (js_mul x x), js_add normB (js_mul y y)))
          (zip vectorA vectorB) (Num 0, Num 0, Num 0)"

definition calculateCosineSimilarity :: "jsnum list \<Rightarrow> jsnum list \<Rightarrow> js_error + jsnum" where
  "calculateCosineSimilarity vectorA vectorB =
     (if length vectorA \<noteq> length vectorB
      then Inl (Vector_length_mismatch (length vectorA) (length vectorB))
      else
        (case cosine_sums vectorA vectorB of (dotProduct, normA, normB) \<Rightarrow>
           (let magnitude = js_mul (js_sqrt normA) (js_sqrt normB)
            in Inr (if magnitude = Num 0 then Num 0 else js_div dotProduct magnitude))))"




definition is_space :: "char \<Rightarrow> bool" where
  \<comment> \<open>The regular expression class \<^verbatim>\<open>\s\<close> below U+0100: tab, LF, VT, FF, CR, space, NBSP.\<close>
  "is_space c = (let n = (of_char c :: nat) in (9 \<le> n \<and> n \<le> 13) \<or> n = 32 \<or> n = 160)"

definition is_lower_alnum :: "char \<Rightarrow> bool" where
  \<comment> \<open>The class \<^verbatim>\<open>[a-z0-9]\<close>.\<close>
  "is_lower_alnum c = (let n = (of_char c :: nat) in (97 \<le> n \<and> n \<le> 122) \<or> (48 \<le> n \<and> n \<le> 57))"

definition strip_chars :: "string \<Rightarrow> string" where
  \<comment> \<open>\<^verbatim>\<open>.replace(/[^a-z0-9\s]/g, '')\<close>\<close>
  "strip_chars s = filter (\<lambda>c. is_lower_alnum c \<or> is_space c) s"

definition trim :: "string \<Rightarrow> string" where
  "trim s = rev (dropWhile is_space (rev (dropWhile is_space s)))"

fun split_ws :: "string \<Rightarrow> string list" where
  \<comment> \<open>\<^verbatim>\<open>.split(/\s+/)\<close>: the fields between maximal runs of white space; a run at either
      end leaves an empty field there, and the empty string has one empty field.\<close>
  "split_ws [] = [[]]"
| "split_ws [c] = (if is_space c then [[], []] else [[c]])"
| "split_ws (c # d # ds) =
     (if is_space c
      then (if is_space d then split_ws (d # ds) else [] # split_ws (d # ds))
      else (case split_ws (d # ds) of
              [] \<Rightarrow> [[c]]
            | w # ws \<Rightarrow> (c # w) # ws))"

definition normalize_text :: "string \<Rightarrow> string list" where
  "normalize_text text = filter (\<lambda>word. length word > 0) (split_ws (trim (strip_chars (toLowerCase text))))"

definition calculateTextSimilarity :: "string \<Rightarrow> string \<Rightarrow> jsnum" where
  \<comment> \<open>A \<^verbatim>\<open>Set\<close> is its list of distinct elements; only its size is read.\<close>
  "calculateTextSimilarity text1 text2 =
     (let words1 = normalize_text text1; words2 = normalize_text text2
      in if length words1 = 0 \<and> length words2 = 0 then Num 1
         else if length words1 = 0 \<or> length words2 = 0 then Num 0
         else
           (let set1 = remdups words1; set2 = remdups words2;
                intersection = remdups (filter (\<lambda>word. word \<in> set set2) set1);
                union = remdups (set1 @ set2)
            in Num (real (length intersection) / real (length union))))"

definition jaccard_spec :: "string set \<Rightarrow> string set \<Rightarrow> real" where
  \<comment> \<open>The specification's words: 1.0 if both word sets are empty, 0.0 if exactly one is,
      otherwise the size of the intersection over the size of the union.\<close>
  "jaccard_spec A B =
     (if A = {} \<and> B = {} then 1
      else if A = {} \<or> B = {} then 0
      else real (card (A \<inter> B)) / real (card (A \<union> B)))"

fun join_words :: "string list \<Rightarrow> string" where
  \<comment> \<open>A text made of the given words, one space between two of them.\<close>
  "join_words [] = []"
| "join_words [w] = w"
| "join_words (w # v # vs) = w @ '' '' @ join_words (v # vs)"

definition is_word :: "string \<Rightarrow> bool" where
  \<comment> \<open>A non-empty string of the characters a-z and 0-9.\<close>
  "is_word w = (w \<noteq> [] \<and> list_all is_lower_alnum w)"

section \<open>The cuisine map (index.js, loadCuisineMap)\<close>

text \<open>
  \<^verbatim>\<open>loadCuisineMap\<close> creates a \<^verbatim>\<open>Map\<close> object but stores and reads the cuisines as
  plain properties of it (\<^verbatim>\<open>cuisineMap[cuisine.name] = cuisine\<close>,
  \<^verbatim>\<open>cuisineMap[bestMatch.name]\<close>). A property read therefore finds a stored cuisine, or
  else whatever the object inherits under that name from \<^verbatim>\<open>Map.prototype\<close> and
  \<^verbatim>\<open>Object.prototype\<close>, or else \<^verbatim>\<open>undefined\<close>. What the program does with the value
  read is to read its \<^verbatim>\<open>imageUrl\<close>, which throws a TypeError on \<^verbatim>\<open>undefined\<close> and
  yields \<^verbatim>\<open>undefined\<close> on an inherited function, number or object. A cuisine
  named \<^verbatim>\<open>__proto__\<close> is not stored: the assignment makes it the prototype of the map,
  and from then on its own fields are what the map inherits. The name and the image URL
  of a cuisine are strings when present.
\<close>

datatype property_value =
    Nullish  \<comment> \<open>\<^verbatim>\<open>undefined\<close>: reading a property of it throws\<close>
  | Null_value  \<comment> \<open>\<^verbatim>\<open>null\<close>: reading a property of it throws\<close>
  | Value "string option"  \<comment> \<open>any other value, with what reading its \<^verbatim>\<open>imageUrl\<close> yields\<close>

record cuisine =
  cuisine_name :: "string option"
  cuisine_imageUrl :: "string option"
  cuisine_fields :: "string \<rightharpoonup> property_value"
    \<comment> \<open>the other fields of the JSON object, by name\<close>

datatype prototype =
    Map_prototype_object  \<comment> \<open>\<^verbatim>\<open>Map.prototype\<close>, as \<^verbatim>\<open>new Map()\<close> leaves it\<close>
  | Cuisine_object cuisine  \<comment> \<open>a cuisine, after an assignment to \<^verbatim>\<open>__proto__\<close>\<close>

record map_object =
  own :: "string \<rightharpoonup> cuisine"
  prototype :: prototype

definition Object_prototype_names :: "string list" where
  \<comment> \<open>The string-keyed properties of \<^verbatim>\<open>Object.prototype\<close>.\<close>
  "Object_prototype_names =
     [''constructor'', ''__defineGetter__'', ''__defineSetter__'', ''hasOwnProperty'',
      ''__lookupGetter__'', ''__lookupSetter__'', ''isPrototypeOf'', ''propertyIsEnumerable'',
      ''toString'', ''valueOf'', ''__proto__'', ''toLocaleString'']"

definition Map_prototype_names :: "string list" where
  \<comment> \<open>The string-keyed properties of \<^verbatim>\<open>Map.prototype\<close> (Node.js 18).\<close>
  "Map_prototype_names =
     [''constructor'', ''get'', ''set'', ''has'', ''delete'', ''clear'', ''entries'',
      ''forEach'', ''keys'', ''size'', ''values'']"

definition Object_prototype :: "string \<Rightarrow> property_value" where
  "Object_prototype k = (if k \<in> set Object_prototype_names then Value None else Nullish)"

definition Map_prototype :: "string \<Rightarrow> property_value" where
  "Map_prototype k = (if k \<in> set Map_prototype_names then Value None else Object_prototype k)"

definition cuisine_property :: "cuisine \<Rightarrow> string \<rightharpoonup> property_value" where
  \<comment> \<open>The own properties of a cuisine that passed the guard of \<^verbatim>\<open>loadCuisineMap\<close>: its
      name and its image URL are strings, whose \<^verbatim>\<open>imageUrl\<close> is \<^verbatim>\<open>undefined\<close>.\<close>
  "cuisine_property c k =
     (if k = ''name'' \<or> k = ''imageUrl'' then Some (Value None) else cuisine_fields c k)"

definition inherited :: "map_object \<Rightarrow> string \<Rightarrow> property_value" where
  \<comment> \<open>What the prototype chain yields. Below a cuisine lies \<^verbatim>\<open>Object.prototype\<close>, whose
      accessor \<^verbatim>\<open>__proto__\<close> yields the prototype of the object read, the cuisine.\<close>
  "inherited obj k =
     (case prototype obj of
        Map_prototype_object \<Rightarrow> Map_prototype k
      | Cuisine_object c \<Rightarrow>
          (case cuisine_property c k of
             Some v \<Rightarrow> v
           | None \<Rightarrow> if k = ''__proto__'' then Value (cuisine_imageUrl c)
                     else Object_prototype k))"

definition new_Map :: map_object where
  "new_Map = \<lparr> own = Map.empty, prototype = Map_prototype_object \<rparr>"

definition get_property :: "map_object \<Rightarrow> string \<Rightarrow> property_value" where
  "get_property obj k =
     (case own obj k of Some c \<Rightarrow> Value (cuisine_imageUrl c) | None \<Rightarrow> inherited obj k)"

definition set_property :: "map_object \<Rightarrow> string \<Rightarrow> cuisine \<Rightarrow> map_object" where
  \<comment> \<open>\<^verbatim>\<open>cuisineMap[k] = c\<close>. Assigning to \<^verbatim>\<open>__proto__\<close> runs the setter inherited
      from \<^verbatim>\<open>Object.prototype\<close>, unless a property of that name shadows it: the cuisine
      becomes the prototype of the object. Assigning to \<^verbatim>\<open>size\<close> while
      \<^verbatim>\<open>Map.prototype\<close> is still the prototype meets an accessor without a setter and is
      ignored (the module is not in strict mode). Any other assignment creates or
      overwrites an own property.\<close>
  "set_property obj k c =
     (if k = ''__proto__'' \<and> own obj k = None \<and>
         (case prototype obj of
            Map_prototype_object \<Rightarrow> True
          | Cuisine_object p \<Rightarrow> cuisine_property p k = None)
      then obj\<lparr> prototype := Cuisine_object c \<rparr>
      else if k = ''size'' \<and> prototype obj = Map_prototype_object
      then obj
      else obj\<lparr> own := (own obj)(k \<mapsto> c) \<rparr>)"

definition loadCuisineMap :: "js_error + cuisine list \<Rightarrow> map_object" where
  \<comment> \<open>The argument is what the S3 read and \<^verbatim>\<open>JSON.parse\<close> deliver inside the
      \<^verbatim>\<open>try\<close>: an exception, or the list of cuisines. Every exception is caught and
      answered with an empty \<^verbatim>\<open>Map\<close>.\<close>
  "loadCuisineMap cuisinesData =
     (case cuisinesData of
        Inl error \<Rightarrow> new_Map
      | Inr cuisines \<Rightarrow>
          fold (\<lambda>cuisine cuisineMap.
                  if \<not> falsy (cuisine_name cuisine) \<and> \<not> falsy (cuisine_imageUrl cuisine)
                  then set_property cuisineMap (or_empty (cuisine_name cuisine)) cuisine
                  else cuisineMap)
               cuisines new_Map)"

section \<open>The match selector (index.js, findBestImageMatch)\<close>

text \<open>
  An entry of the embeddings file. Its text fields may be absent; its vegetarian flag is
  a boolean when present and \<open>None\<close> when the entry does not have the field.
\<close>

record image_embedding =
  img_name :: "string option"
  img_url :: "string option"
  img_description :: "string option"
  img_embedding :: "jsnum list"
  img_isVegetarian :: "bool option"

datatype reason =
    No_suitable_match  \<comment> \<open>\<^verbatim>\<open>'No suitable match found'\<close>\<close>
  | Cosine_similarity jsnum jsnum  \<comment> \<open>\<^verbatim>\<open>Cosine similarity <score> >= <threshold>\<close>\<close>
  | Text_similarity jsnum jsnum  \<comment> \<open>\<^verbatim>\<open>Text similarity <score> >= <threshold>\<close>\<close>

record match_state =
  bestMatch :: "image_embedding option"
  bestCosineScore :: jsnum
  bestTextScore :: jsnum
  method_str :: string
  reason :: reason

record match_result =
  res_bestMatch :: "image_embedding option"
  res_cosineScore :: jsnum
  res_textScore :: jsnum
  res_method :: string
  res_reason :: reason
  res_url :: "string option"

definition initial_state :: match_state where
  "initial_state =
     \<lparr> bestMatch = None, bestCosineScore = Num 0, bestTextScore = Num 0,
       method_str = ''none'', reason = No_suitable_match \<rparr>"

definition imageIsVegetarian :: "image_embedding \<Rightarrow> bool" where
  "imageIsVegetarian imageEmbedding =
     (case img_isVegetarian imageEmbedding of
        Some flag \<Rightarrow> flag
      | None \<Rightarrow> detectImageVegetarian (img_url imageEmbedding) (img_name imageEmbedding)
                  (img_description imageEmbedding))"

definition consider_image ::
  "config \<Rightarrow> string \<Rightarrow> jsnum list \<Rightarrow> bool \<Rightarrow> match_state \<Rightarrow> image_embedding
     \<Rightarrow> js_error + match_state" where
  \<comment> \<open>The body of the \<^verbatim>\<open>for\<close> loop over the catalog: the state after one image, or the
      exception of the scorer.\<close>
  "consider_image cfg mealName mealEmbedding mealIsVegetarian st imageEmbedding =
     (if mealIsVegetarian \<and> \<not> imageIsVegetarian imageEmbedding
      then Inr st
      else
        (case calculateCosineSimilarity mealEmbedding (img_embedding imageEmbedding) of
           Inl error \<Rightarrow> Inl error
         | Inr cosineScore \<Rightarrow>
             (let textScore = calculateTextSimilarity mealName (or_empty (img_name imageEmbedding))
              in if js_ge cosineScore (COSINE_SIMILARITY_THRESHOLD cfg)
                    \<and> js_gt cosineScore (bestCosineScore st)
                 then Inr (st\<lparr> bestMatch := Some imageEmbedding, bestCosineScore := cosineScore,
                               method_str := ''cosine'',
                               reason := Cosine_similarity cosineScore
                                           (COSINE_SIMILARITY_THRESHOLD cfg) \<rparr>)
                 else if method_str st \<noteq> ''cosine''
                         \<and> js_ge textScore (TEXT_SIMILARITY_THRESHOLD cfg)
                         \<and> js_gt textScore (bestTextScore st)
                 then Inr (st\<lparr> bestMatch := Some imageEmbedding, bestTextScore := textScore,
                               method_str := ''text'',
                               reason := Text_similarity textScore
                                           (TEXT_SIMILARITY_THRESHOLD cfg) \<rparr>)
                 else Inr st)))"

fun scan_images ::
  "config \<Rightarrow> string \<Rightarrow> jsnum list \<Rightarrow> bool \<Rightarrow> match_state \<Rightarrow> image_embedding list
     \<Rightarrow> js_error + match_state" where
  \<comment> \<open>The loop itself, in catalog order; an exception leaves it.\<close>
  "scan_images cfg mealName mealEmbedding mealIsVegetarian st [] = Inr st"
| "scan_images cfg mealName mealEmbedding mealIsVegetarian st (imageEmbedding # rest) =
     (case consider_image cfg mealName mealEmbedding mealIsVegetarian st imageEmbedding of
        Inl error \<Rightarrow> Inl error
      | Inr st' \<Rightarrow> scan_images cfg mealName mealEmbedding mealIsVegetarian st' rest)"

definition property_key :: "string option \<Rightarrow> string" where
  \<comment> \<open>The property key made of \<^verbatim>\<open>bestMatch.name\<close>: a missing name is the key
      \<^verbatim>\<open>"undefined"\<close>.\<close>
  "property_key name = (case name of None \<Rightarrow> ''undefined'' | Some s \<Rightarrow> s)"

definition findBestImageMatch ::
  "map_object \<Rightarrow> config \<Rightarrow> string \<Rightarrow> jsnum list \<Rightarrow> bool \<Rightarrow> image_embedding list
     \<Rightarrow> js_error + match_result" where
  \<comment> \<open>The globals \<^verbatim>\<open>cuisineMap\<close> and \<^verbatim>\<open>CONFIG\<close> are the first two arguments.\<close>
  "findBestImageMatch cuisineMap cfg mealName mealEmbedding mealIsVegetarian imageEmbeddings =
     (case scan_images cfg mealName mealEmbedding mealIsVegetarian initial_state imageEmbeddings of
        Inl error \<Rightarrow> Inl error
      | Inr st \<Rightarrow>
          (case bestMatch st of
             None \<Rightarrow> Inl (TypeError_null ''name'')
           | Some matched \<Rightarrow>
               (case get_property cuisineMap (property_key (img_name matched)) of
                  Nullish \<Rightarrow> Inl (TypeError_undefined ''imageUrl'')
                | Null_value \<Rightarrow> Inl (TypeError_null ''imageUrl'')
                | Value imageUrl \<Rightarrow>
                    Inr \<lparr> res_bestMatch = bestMatch st, res_cosineScore = bestCosineScore st,
                          res_textScore = bestTextScore st, res_method = method_str st,
                          res_reason = reason st, res_url = imageUrl \<rparr>)))"

definition state_ok :: "match_state \<Rightarrow> bool" where
  \<comment> \<open>What holds of the loop variables at every round: there is a best match exactly
      when \<open>method_str\<close> is not \<^verbatim>\<open>'none'\<close>, exactly then the reason is not the initial
      one, and the best cosine score is still its initial \<open>0\<close> until \<open>method_str\<close>
      becomes \<^verbatim>\<open>'cosine'\<close>.\<close>
  "state_ok st =
     ((bestMatch st = None) = (method_str st = ''none'') \<and>
      (method_str st = ''none'' \<or> method_str st = ''text'' \<or> method_str st = ''cosine'') \<and>
      (method_str st = ''cosine'' \<or> bestCosineScore st = Num 0) \<and>
      (method_str st = ''none'') = (reason st = No_suitable_match))"

section \<open>The batch (index.js, processMealBatch)\<close>

text \<open>
  The embedding provider is a collaborator: \<open>generateMealEmbedding n name\<close> is what its
  \<open>n\<close>-th call of the invocation, made for \<open>name\<close>, delivers: an exception or a
  vector. Time stamps and the provenance fields that are copied through unread are left
  out of the records.
\<close>

datatype meal_id = Request_id nat | Document_id string

record meal =
  meal_id :: meal_id
  meal_name :: string
  meal_isVegetarian :: bool

record meal_result =
  r_mealId :: meal_id
  r_mealName :: string
  r_imageUrl :: "string option"
  r_imageName :: "string option"
  r_cosineScore :: "jsnum option"
  r_textScore :: "jsnum option"
  r_method :: string
  r_reason :: "reason option"
  r_mealIsVegetarian :: "bool option"
  r_imageIsVegetarian :: "bool option"
  r_error :: "js_error option"

definition or_null :: "string option \<Rightarrow> string option" where
  \<comment> \<open>\<^verbatim>\<open>x || null\<close> for an optional string.\<close>
  "or_null x = (if falsy x then None else x)"

definition error_result :: "meal \<Rightarrow> js_error \<Rightarrow> meal_result" where
  \<comment> \<open>The entry pushed by the \<^verbatim>\<open>catch\<close> block.\<close>
  "error_result meal error =
     \<lparr> r_mealId = meal_id meal, r_mealName = meal_name meal, r_imageUrl = None,
       r_imageName = None, r_cosineScore = None, r_textScore = None, r_method = ''error'',
       r_reason = None, r_mealIsVegetarian = None, r_imageIsVegetarian = None,
       r_error = Some error \<rparr>"

definition processMeal ::
  "map_object \<Rightarrow> config \<Rightarrow> (nat \<Rightarrow> string \<Rightarrow> js_error + jsnum list) \<Rightarrow> nat \<Rightarrow> meal
     \<Rightarrow> image_embedding list \<Rightarrow> meal_result" where
  \<comment> \<open>One round of the loop: the \<^verbatim>\<open>try\<close> block and its \<^verbatim>\<open>catch\<close>.\<close>
  "processMeal cuisineMap cfg generateMealEmbedding n meal imageEmbeddings =
     (case generateMealEmbedding n (meal_name meal) of
        Inl error \<Rightarrow> error_result meal error
      | Inr mealEmbedding \<Rightarrow>
          (case findBestImageMatch cuisineMap cfg (meal_name meal) mealEmbedding
                  (meal_isVegetarian meal) imageEmbeddings of
             Inl error \<Rightarrow> error_result meal error
           | Inr matchResult \<Rightarrow>
               \<lparr> r_mealId = meal_id meal, r_mealName = meal_name meal,
                 r_imageUrl = or_null (res_url matchResult),
                 r_imageName =
                   (case res_bestMatch matchResult of
                      None \<Rightarrow> None | Some matched \<Rightarrow> or_null (img_name matched)),
                 r_cosineScore = Some (res_cosineScore matchResult),
                 r_textScore = Some (res_textScore matchResult),
                 r_method = res_method matchResult,
                 r_reason = Some (res_reason matchResult),
                 r_mealIsVegetarian = Some (meal_isVegetarian meal),
                 r_imageIsVegetarian =
                   (case res_bestMatch matchResult of
                      None \<Rightarrow> None | Some matched \<Rightarrow> Some (imageIsVegetarian matched)),
                 r_error = None \<rparr>))"

fun processMealBatch ::
  "map_object \<Rightarrow> config \<Rightarrow> (nat \<Rightarrow> string \<Rightarrow> js_error + jsnum list) \<Rightarrow> nat \<Rightarrow> meal list
     \<Rightarrow> image_embedding list \<Rightarrow> meal_result list" where
  \<comment> \<open>\<open>n\<close> counts the calls of the embedding provider made before this meal.\<close>
  "processMealBatch cuisineMap cfg generateMealEmbedding n [] imageEmbeddings = []"
| "processMealBatch cuisineMap cfg generateMealEmbedding n (meal # meals) imageEmbeddings =
     processMeal cuisineMap cfg generateMealEmbedding n meal imageEmbeddings
       # processMealBatch cuisineMap cfg generateMealEmbedding (Suc n) meals imageEmbeddings"

section \<open>The handler (index.js)\<close>

text \<open>
  The collaborators of one invocation are gathered in a record: what the two loaders
  read, what the meal store lists, the embedding provider, the remaining time reported
  at the \<open>k\<close>-th batch and whether persisting the \<open>k\<close>-th batch throws. The two
  module-level variables that cache the loaded data are passed in and returned. An
  element of \<^verbatim>\<open>mealNames\<close> is a string or a value whose conversion to a string throws;
  the names of the meals that are processed are strings.
\<close>

datatype request_name =
    Name string  \<comment> \<open>an element of \<^verbatim>\<open>mealNames\<close> that is a string\<close>
  | Unconvertible
      \<comment> \<open>an element whose conversion to a string throws, such as the object
          \<^verbatim>\<open>{"toString": 1}\<close>\<close>

datatype event_body =
    No_body  \<comment> \<open>\<^verbatim>\<open>event.body\<close> is missing or empty\<close>
  | Unparsable  \<comment> \<open>\<^verbatim>\<open>JSON.parse\<close> or the access to \<^verbatim>\<open>mealNames\<close> throws\<close>
  | Parsed "request_name list option"
      \<comment> \<open>\<^verbatim>\<open>mealNames\<close> when it is an array, else \<open>None\<close>\<close>

record world =
  w_cuisinesData :: "js_error + cuisine list"
  w_embeddingsData :: "js_error + image_embedding list"
  w_unmappedMeals :: "js_error + meal list"
  w_generateMealEmbedding :: "nat \<Rightarrow> string \<Rightarrow> js_error + jsnum list"
  w_remainingTime :: "nat \<Rightarrow> int"
  w_updateFirestoreMappings :: "nat \<Rightarrow> meal_result list \<Rightarrow> js_error option"

record response =
  rsp_statusCode :: nat
  rsp_message :: "string option"
  rsp_error :: "js_error option"
  rsp_mode :: string
  rsp_processedCount :: nat
  rsp_successfulMappings :: "nat option"
  rsp_results :: "meal_result list option"
  rsp_mealImageMappings :: "(string \<rightharpoonup> string) option"

fun request_meals :: "nat \<Rightarrow> request_name list \<Rightarrow> js_error + meal list" where
  \<comment> \<open>The \<^verbatim>\<open>map\<close> over \<^verbatim>\<open>mealNames\<close> from \<open>index\<close> on. The callback puts the name into
      a template literal, in \<^verbatim>\<open>detectMealVegetarian\<close> and again for the description; on
      an object that cannot be converted this throws a TypeError, which ends the
      \<^verbatim>\<open>map\<close>.\<close>
  "request_meals index [] = Inr []"
| "request_meals index (Unconvertible # mealNames) = Inl TypeError_primitive"
| "request_meals index (Name mealName # mealNames) =
     (case request_meals (Suc index) mealNames of
        Inl error \<Rightarrow> Inl error
      | Inr meals \<Rightarrow>
          Inr (\<lparr> meal_id = Request_id index, meal_name = mealName,
                 meal_isVegetarian = detectMealVegetarian mealName (Some []) \<rparr> # meals))"

definition processRequestMeals :: "request_name list \<Rightarrow> js_error + meal list" where
  \<comment> \<open>Its \<^verbatim>\<open>catch\<close> throws the error again.\<close>
  "processRequestMeals mealNames = request_meals 0 mealNames"

definition is_mapped :: "meal_result \<Rightarrow> bool" where
  \<comment> \<open>\<^verbatim>\<open>result.imageUrl && result.method !== 'error'\<close>\<close>
  "is_mapped result = (\<not> falsy (r_imageUrl result) \<and> r_method result \<noteq> ''error'')"

function batch_loop ::
  "world \<Rightarrow> map_object \<Rightarrow> config \<Rightarrow> image_embedding list \<Rightarrow> meal list \<Rightarrow> nat
     \<Rightarrow> meal_result list \<Rightarrow> nat \<Rightarrow> (js_error \<times> nat) + (meal_result list \<times> nat)" where
  \<comment> \<open>The loop \<^verbatim>\<open>for (let i = 0; i < mealsToProcess.length; i += batchSize)\<close>; it
      yields \<open>(allResults, processedCount)\<close>, or the exception of the persistence step with
      the count reached. The batch size is never \<open>0\<close> (see \<open>CONFIG\<close>).\<close>
  "batch_loop w cuisineMap cfg imageEmbeddings mealsToProcess i allResults processedCount =
     (if i < length mealsToProcess \<and> 0 < MAX_MEALS_PER_BATCH cfg
      then
        if w_remainingTime w (i div MAX_MEALS_PER_BATCH cfg) < 30000
        then Inr (allResults, processedCount)
        else
          (case w_updateFirestoreMappings w (i div MAX_MEALS_PER_BATCH cfg)
                  (processMealBatch cuisineMap cfg (w_generateMealEmbedding w) i
                     (take (MAX_MEALS_PER_BATCH cfg) (drop i mealsToProcess)) imageEmbeddings) of
             Some error \<Rightarrow>
               Inl (error,
                    processedCount
                      + length (take (MAX_MEALS_PER_BATCH cfg) (drop i mealsToProcess)))
           | None \<Rightarrow>
               batch_loop w cuisineMap cfg imageEmbeddings mealsToProcess
                 (i + MAX_MEALS_PER_BATCH cfg)
                 (allResults
                    @ processMealBatch cuisineMap cfg (w_generateMealEmbedding w) i
                        (take (MAX_MEALS_PER_BATCH cfg) (drop i mealsToProcess)) imageEmbeddings)
                 (processedCount
                    + length (take (MAX_MEALS_PER_BATCH cfg) (drop i mealsToProcess))))
      else Inr (allResults, processedCount))"
  by pat_completeness auto
termination
  by (relation "measure (\<lambda>(w, cuisineMap, cfg, imageEmbeddings, mealsToProcess, i, allResults,
                           processedCount). length mealsToProcess - i)") auto

declare batch_loop.simps [simp del]

definition error_response :: "js_error \<Rightarrow> string \<Rightarrow> nat \<Rightarrow> response" where
  \<comment> \<open>The answer of the outer \<^verbatim>\<open>catch\<close>.\<close>
  "error_response e md n =
     \<lparr> rsp_statusCode = 500, rsp_message = None, rsp_error = Some e, rsp_mode = md, rsp_processedCount = n,
       rsp_successfulMappings = None, rsp_results = None, rsp_mealImageMappings = None \<rparr>"

definition build_mappings :: "meal_result list \<Rightarrow> (string \<rightharpoonup> string)" where
  \<comment> \<open>\<^verbatim>\<open>mealImageMappings[result.mealName] = result.imageUrl\<close> for each mapped result;
      assigning a string to \<^verbatim>\<open>__proto__\<close> leaves the object as it is.\<close>
  "build_mappings allResults =
     fold (\<lambda>result mappings.
             if is_mapped result \<and> r_mealName result \<noteq> ''__proto__''
             then mappings(r_mealName result \<mapsto> or_empty (r_imageUrl result))
             else mappings)
          allResults Map.empty"

definition resolve_request :: "event_body \<Rightarrow> string \<times> meal list" where
  \<comment> \<open>The block \<^verbatim>\<open>if (event.body) { try { ... } catch ... }\<close>: the mode and
      \<^verbatim>\<open>mealsToProcess\<close> after it. The mode is set before \<^verbatim>\<open>processRequestMeals\<close> is
      called: when that call throws, the \<^verbatim>\<open>catch\<close> of the block swallows the error and
      the mode stays \<^verbatim>\<open>'request'\<close> with no meal to process.\<close>
  "resolve_request body =
     (case body of
        No_body \<Rightarrow> (''fetch'', [])
      | Unparsable \<Rightarrow> (''fetch'', [])
      | Parsed None \<Rightarrow> (''fetch'', [])
      | Parsed (Some mealNames) \<Rightarrow>
          if length mealNames > 0
          then (case processRequestMeals mealNames of
                  Inl parseError \<Rightarrow> (''request'', [])
                | Inr meals \<Rightarrow> (''request'', meals))
          else (''fetch'', []))"

definition handler ::
  "world \<Rightarrow> environment \<Rightarrow> (map_object \<times> image_embedding list) option \<Rightarrow> event_body
     \<Rightarrow> response \<times> (map_object \<times> image_embedding list) option" where
  "handler w env cache body =
     (case (case cache of
              Some loaded \<Rightarrow> Inr loaded
            | None \<Rightarrow>
                (case w_embeddingsData w of
                   Inl e \<Rightarrow> Inl e
                 | Inr embeddings \<Rightarrow> Inr (loadCuisineMap (w_cuisinesData w), embeddings))) of
        Inl e \<Rightarrow> (error_response e ''fetch'' 0, cache)
      | Inr (cuisineMap, imageEmbeddings) \<Rightarrow>
          (case resolve_request body of (md, requested) \<Rightarrow>
             (case (if md = ''fetch'' then w_unmappedMeals w else Inr requested) of
                Inl e \<Rightarrow> (error_response e md 0, Some (cuisineMap, imageEmbeddings))
              | Inr mealsToProcess \<Rightarrow>
                  if length mealsToProcess = 0
                  then (\<lparr> rsp_statusCode = 200,
                          rsp_message = Some (if md = ''request''
                                          then ''No meal names provided in request''
                                          else ''No unmapped meals found''),
                          rsp_error = None, rsp_mode = md, rsp_processedCount = 0,
                          rsp_successfulMappings = None, rsp_results = None,
                          rsp_mealImageMappings = None \<rparr>,
                        Some (cuisineMap, imageEmbeddings))
                  else
                    (case batch_loop w cuisineMap (CONFIG env) imageEmbeddings mealsToProcess
                            0 [] 0 of
                       Inl (e, n) \<Rightarrow> (error_response e md n, Some (cuisineMap, imageEmbeddings))
                     | Inr (allResults, n) \<Rightarrow>
                         (\<lparr> rsp_statusCode = 200,
                            rsp_message = Some ''Meal-image mapping completed'',
                            rsp_error = None, rsp_mode = md, rsp_processedCount = n,
                            rsp_successfulMappings = Some (length (filter is_mapped allResults)),
                            rsp_results = Some allResults,
                            rsp_mealImageMappings =
                              (if md = ''request'' then Some (build_mappings allResults)
                               else None) \<rparr>,
                          Some (cuisineMap, imageEmbeddings))))))"

section \<open>Example data\<close>

text \<open>
  A small catalog, its cuisine file and a meal embedding, used where a statement is
  evaluated at a concrete input. The embedding \<open>[1, 0]\<close> has cosine similarity \<open>1\<close> with
  itself and \<open>0\<close> with \<open>[0, 1]\<close>.
\<close>

definition default_env :: environment where
  \<comment> \<open>No variable set: both thresholds 0.2, batches of 50.\<close>
  "default_env =
     \<lparr> env_COSINE_SIMILARITY_THRESHOLD = NaN, env_TEXT_SIMILARITY_THRESHOLD = NaN,
       env_MAX_MEALS_PER_BATCH = None \<rparr>"

definition dal_image :: image_embedding where
  "dal_image =
     \<lparr> img_name = Some ''Dal'', img_url = Some ''dal.jpg'', img_description = None,
       img_embedding = [Num 1, Num 0], img_isVegetarian = Some True \<rparr>"

definition roti_image :: image_embedding where
  "roti_image =
     \<lparr> img_name = Some ''Roti'', img_url = Some ''roti.jpg'', img_description = None,
       img_embedding = [Num 0, Num 1], img_isVegetarian = Some True \<rparr>"

definition chicken_image :: image_embedding where
  "chicken_image =
     \<lparr> img_name = Some ''Chicken Curry'', img_url = Some ''chicken.jpg'', img_description = None,
       img_embedding = [Num 1, Num 0], img_isVegetarian = Some False \<rparr>"

definition example_cuisines :: "cuisine list" where
  "example_cuisines =
     [\<lparr> cuisine_name = Some ''Dal'', cuisine_imageUrl = Some ''https://img/dal.jpg'',
        cuisine_fields = Map.empty \<rparr>,
      \<lparr> cuisine_name = Some ''Roti'', cuisine_imageUrl = Some ''https://img/roti.jpg'',
        cuisine_fields = Map.empty \<rparr>,
      \<lparr> cuisine_name = Some ''Chicken Curry'', cuisine_imageUrl = Some ''https://img/chicken.jpg'',
        cuisine_fields = Map.empty \<rparr>]"

definition example_map :: map_object where
  "example_map = loadCuisineMap (Inr example_cuisines)"

definition empty_map :: map_object where
  \<comment> \<open>What \<^verbatim>\<open>loadCuisineMap\<close> returns when the cuisine file cannot be read.\<close>
  "empty_map = loadCuisineMap (Inl (Error ''No cuisines data found''))"

definition constructor_image :: image_embedding where
  \<comment> \<open>An image whose name is also the name of an inherited property.\<close>
  "constructor_image =
     \<lparr> img_name = Some ''constructor'', img_url = Some ''c.jpg'', img_description = None,
       img_embedding = [Num 1, Num 0], img_isVegetarian = Some True \<rparr>"

section \<open>Properties of the vegetarian detection\<close>

lemma startsWith_prefix: "startsWith t n \<longleftrightarrow> prefix n t"
  by (induction t n rule: startsWith.induct) auto

lemma str_includes_sublist: "str_includes t n \<longleftrightarrow> sublist n t"
  by (induction t) (auto simp: startsWith_prefix sublist_Cons_right)

lemma str_includes_append: "str_includes (before @ n @ after) n"
  by (simp add: str_includes_sublist sublist_def) blast

lemma classify_strong_non:
  "list_ex (str_includes t) STRONG_NON_VEGETARIAN_INDICATORS \<Longrightarrow> classify_text t = False"
  by (simp add: classify_text_def)

lemma classify_no_strong:
  "\<not> list_ex (str_includes t) STRONG_NON_VEGETARIAN_INDICATORS \<Longrightarrow>
   \<not> list_ex (str_includes t) STRONG_VEGETARIAN_INDICATORS \<Longrightarrow>
   classify_text t =
     (count_indicators t NON_VEGETARIAN_INDICATORS \<le> count_indicators t VEGETARIAN_INDICATORS)"
  by (auto simp: classify_text_def Let_def)

text \<open>
  Claim C7, as the code has it. An empty meal name is answered \<open>True\<close> before any text is
  built. For a non-empty meal name, with \<open>text\<close> the lower-cased concatenation of name,
  a space and description: (1) if a strong non-vegetarian indicator occurs in the text the
  answer is \<open>False\<close>, whatever the strong vegetarian indicators say; (2) if no strong
  indicator of either list occurs, the answer is \<open>True\<close> exactly when the number of
  vegetarian indicators occurring is at least the number of non-vegetarian indicators
  occurring (so a tie, and in particular zero against zero, is vegetarian). The three
  examples of the claim evaluate to \<open>False\<close>, \<open>True\<close>, \<open>True\<close>.
\<close>

theorem detectMealVegetarian_rules:
  "(mealName = [] \<longrightarrow> detectMealVegetarian mealName description = True) \<and>
   (mealName \<noteq> [] \<longrightarrow>
      (list_ex (str_includes (meal_text mealName description)) STRONG_NON_VEGETARIAN_INDICATORS
         \<longrightarrow> detectMealVegetarian mealName description = False) \<and>
      (\<not> list_ex (str_includes (meal_text mealName description)) STRONG_NON_VEGETARIAN_INDICATORS \<and>
       \<not> list_ex (str_includes (meal_text mealName description)) STRONG_VEGETARIAN_INDICATORS
         \<longrightarrow> detectMealVegetarian mealName description =
              (count_indicators (meal_text mealName description) VEGETARIAN_INDICATORS
                 \<ge> count_indicators (meal_text mealName description) NON_VEGETARIAN_INDICATORS))) \<and>
   detectMealVegetarian ''Chicken Biryani'' (Some '''') = False \<and>
   detectMealVegetarian ''Dal Makhani'' (Some '''') = True \<and>
   detectMealVegetarian ''Unknown Dish XYZ'' (Some '''') = True"
proof -
  have e1: "detectMealVegetarian ''Chicken Biryani'' (Some '''') = False" by code_simp
  have e2: "detectMealVegetarian ''Dal Makhani'' (Some '''') = True" by code_simp
  have e3: "detectMealVegetarian ''Unknown Dish XYZ'' (Some '''') = True" by code_simp
  show ?thesis
    using e1 e2 e3
    by (simp add: detectMealVegetarian_def classify_strong_non classify_no_strong)
qed

text \<open>
  The rules of C7 at concrete inputs: a name with both a strong vegetarian and a strong
  non-vegetarian indicator is non-vegetarian; a name with no strong indicator, no
  vegetarian indicator and one non-vegetarian indicator is non-vegetarian by the count;
  an empty name is vegetarian.
\<close>

theorem detectMealVegetarian_rules_witness:
  "''Vegan Chicken Salad'' \<noteq> [] \<and>
   list_ex (str_includes (meal_text ''Vegan Chicken Salad'' None)) STRONG_NON_VEGETARIAN_INDICATORS \<and>
   list_ex (str_includes (meal_text ''Vegan Chicken Salad'' None)) STRONG_VEGETARIAN_INDICATORS \<and>
   detectMealVegetarian ''Vegan Chicken Salad'' None = False \<and>
   ''Omelette'' \<noteq> [] \<and>
   \<not> list_ex (str_includes (meal_text ''Omelette'' None)) STRONG_NON_VEGETARIAN_INDICATORS \<and>
   \<not> list_ex (str_includes (meal_text ''Omelette'' None)) STRONG_VEGETARIAN_INDICATORS \<and>
   count_indicators (meal_text ''Omelette'' None) VEGETARIAN_INDICATORS = 0 \<and>
   count_indicators (meal_text ''Omelette'' None) NON_VEGETARIAN_INDICATORS = 1 \<and>
   detectMealVegetarian ''Omelette'' None = False \<and>
   detectMealVegetarian [] (Some ''Omelette'') = True"
proof -
  have n1: "''Vegan Chicken Salad'' \<noteq> []" by simp
  have s1: "list_ex (str_includes (meal_text ''Vegan Chicken Salad'' None))
              STRONG_NON_VEGETARIAN_INDICATORS"
    by code_simp
  have v1: "list_ex (str_includes (meal_text ''Vegan Chicken Salad'' None))
              STRONG_VEGETARIAN_INDICATORS"
    by code_simp
  have n2: "''Omelette'' \<noteq> []" by simp
  have s2: "\<not> list_ex (str_includes (meal_text ''Omelette'' None)) STRONG_NON_VEGETARIAN_INDICATORS"
    by code_simp
  have v2: "\<not> list_ex (str_includes (meal_text ''Omelette'' None)) STRONG_VEGETARIAN_INDICATORS"
    by code_simp
  have c1: "count_indicators (meal_text ''Omelette'' None) VEGETARIAN_INDICATORS = 0"
    by code_simp
  have c2: "count_indicators (meal_text ''Omelette'' None) NON_VEGETARIAN_INDICATORS = 1"
    by code_simp
  from detectMealVegetarian_rules [of "''Vegan Chicken Salad''" None] n1 s1
  have r1: "detectMealVegetarian ''Vegan Chicken Salad'' None = False" by blast
  from detectMealVegetarian_rules [of "''Omelette''" None] n2 s2 v2
  have "detectMealVegetarian ''Omelette'' None =
          (count_indicators (meal_text ''Omelette'' None) VEGETARIAN_INDICATORS
             \<ge> count_indicators (meal_text ''Omelette'' None) NON_VEGETARIAN_INDICATORS)"
    by blast
  then have r2: "detectMealVegetarian ''Omelette'' None = False" by (simp add: c1 c2)
  from detectMealVegetarian_rules [of "[]" "Some ''Omelette''"]
  have r3: "detectMealVegetarian [] (Some ''Omelette'') = True" by blast
  show ?thesis using n1 s1 v1 r1 n2 s2 v2 c1 c2 r2 r3 by blast
qed

text \<open>
  C7 as stated fails for an empty meal name: the lower-cased concatenation of the empty
  name and the description \<open>Chicken Curry\<close> contains a strong non-vegetarian indicator,
  and the answer is not \<open>False\<close>.
\<close>

theorem detectMealVegetarian_empty_name_counterexample:
  "list_ex (str_includes (meal_text [] (Some ''Chicken Curry''))) STRONG_NON_VEGETARIAN_INDICATORS \<and>
   detectMealVegetarian [] (Some ''Chicken Curry'') \<noteq> False"
  by code_simp

text \<open>
  Claim C10, as the code has it. The strong checks are substring checks on the whole
  text: for a non-empty meal name, whenever the text is some characters, a strong
  non-vegetarian indicator, and some more characters (so the indicator may sit inside a
  longer word), the answer is \<open>False\<close>. In particular \<open>Eggplant Curry\<close> is classified
  non-vegetarian, because its text begins with the strong indicator \<open>egg\<close>, although
  \<open>eggplant\<close> is in the list of vegetarian indicators.
\<close>

theorem strong_indicator_is_substring_check:
  "(mealName \<noteq> [] \<and> indicator \<in> set STRONG_NON_VEGETARIAN_INDICATORS \<and>
    meal_text mealName description = before @ indicator @ after
      \<longrightarrow> detectMealVegetarian mealName description = False) \<and>
   ''egg'' \<in> set STRONG_NON_VEGETARIAN_INDICATORS \<and>
   ''eggplant'' \<in> set VEGETARIAN_INDICATORS \<and>
   meal_text ''Eggplant Curry'' (Some '''') = [] @ ''egg'' @ ''plant curry '' \<and>
   detectMealVegetarian ''Eggplant Curry'' (Some '''') = False"
proof -
  have general: "detectMealVegetarian mealName description = False"
    if "mealName \<noteq> []" "indicator \<in> set STRONG_NON_VEGETARIAN_INDICATORS"
       "meal_text mealName description = before @ indicator @ after"
  proof -
    from that(3) have "str_includes (meal_text mealName description) indicator"
      by (simp add: str_includes_append)
    with that(2) have "list_ex (str_includes (meal_text mealName description))
                         STRONG_NON_VEGETARIAN_INDICATORS"
      by (auto simp: list_ex_iff)
    with that(1) show ?thesis
      by (simp add: detectMealVegetarian_def classify_strong_non)
  qed
  have m1: "''egg'' \<in> set STRONG_NON_VEGETARIAN_INDICATORS" by code_simp
  have m2: "''eggplant'' \<in> set VEGETARIAN_INDICATORS" by code_simp
  have t: "meal_text ''Eggplant Curry'' (Some '''') = [] @ ''egg'' @ ''plant curry ''" by code_simp
  have e: "detectMealVegetarian ''Eggplant Curry'' (Some '''') = False" by code_simp
  from general m1 m2 t e show ?thesis by blast
qed

text \<open>
  The substring rule of C10 applied to \<open>Eggplant Curry\<close>: the name is not empty, \<open>egg\<close>
  is a strong non-vegetarian indicator and the text is \<open>egg\<close> followed by
  \<open>plant curry\<close>, hence the answer \<open>False\<close>.
\<close>

theorem strong_indicator_is_substring_check_witness:
  "''Eggplant Curry'' \<noteq> [] \<and> ''egg'' \<in> set STRONG_NON_VEGETARIAN_INDICATORS \<and>
   meal_text ''Eggplant Curry'' (Some '''') = [] @ ''egg'' @ ''plant curry '' \<and>
   detectMealVegetarian ''Eggplant Curry'' (Some '''') = False"
proof -
  have n: "''Eggplant Curry'' \<noteq> []" by simp
  from strong_indicator_is_substring_check
         [of "''Eggplant Curry''" "''egg''" "Some ''''" "[]" "''plant curry ''"]
  show ?thesis using n by blast
qed

text \<open>
  C10 as stated fails for an empty meal name: the text of the empty name with the
  description \<open>Eggplant\<close> is a space, the strong indicator \<open>egg\<close> and \<open>plant\<close>, and the
  classification is \<open>True\<close>.
\<close>

theorem strong_indicator_empty_name_counterexample:
  "''egg'' \<in> set STRONG_NON_VEGETARIAN_INDICATORS \<and>
   meal_text [] (Some ''Eggplant'') = '' '' @ ''egg'' @ ''plant'' \<and>
   detectMealVegetarian [] (Some ''Eggplant'') = True"
  by code_simp

section \<open>Properties of the text similarity\<close>

lemma inter_via_filter:
  "set (filter (\<lambda>w. w \<in> set (remdups ys)) (remdups xs)) = set xs \<inter> set ys"
  by auto

lemma calculateTextSimilarity_jaccard:
  "calculateTextSimilarity s1 s2 =
     Num (jaccard_spec (set (normalize_text s1)) (set (normalize_text s2)))"
proof -
  let ?w1 = "normalize_text s1" and ?w2 = "normalize_text s2"
  have i: "length (remdups (filter (\<lambda>w. w \<in> set (remdups ?w2)) (remdups ?w1)))
             = card (set ?w1 \<inter> set ?w2)"
    by (simp only: length_remdups_card_conv inter_via_filter)
  have u: "length (remdups (remdups ?w1 @ remdups ?w2)) = card (set ?w1 \<union> set ?w2)"
    by (simp add: length_remdups_card_conv)
  show ?thesis
    unfolding calculateTextSimilarity_def jaccard_spec_def Let_def i u
    by simp
qed

lemma jaccard_spec_same: "finite A \<Longrightarrow> jaccard_spec A A = 1"
  by (simp add: jaccard_spec_def)

lemma calculateTextSimilarity_same: "calculateTextSimilarity s s = Num 1"
  by (simp add: calculateTextSimilarity_jaccard jaccard_spec_same)

lemma split_ws_not_Nil: "split_ws t \<noteq> []"
  by (induction t rule: split_ws.induct) (auto split: list.splits)

lemma concat_split_ws: "concat (split_ws t) = filter (\<lambda>c. \<not> is_space c) t"
  by (induction t rule: split_ws.induct) (auto simp: split_ws_not_Nil split: list.splits)

lemma filter_dropWhile_space:
  "filter (\<lambda>c. \<not> is_space c) (dropWhile is_space s) = filter (\<lambda>c. \<not> is_space c) s"
  by (induction s) auto

lemma filter_trim: "filter (\<lambda>c. \<not> is_space c) (trim s) = filter (\<lambda>c. \<not> is_space c) s"
  by (simp add: trim_def filter_dropWhile_space rev_filter [symmetric])

lemma concat_filter_nonempty: "concat (filter (\<lambda>w. length w > 0) ws) = concat ws"
  by (induction ws) auto

lemma alnum_not_space: "is_lower_alnum c \<Longrightarrow> \<not> is_space c"
  unfolding is_lower_alnum_def is_space_def Let_def by linarith

lemma concat_normalize_text:
  "concat (normalize_text s) = filter is_lower_alnum (toLowerCase s)"
proof -
  have "concat (normalize_text s) = filter (\<lambda>c. \<not> is_space c) (strip_chars (toLowerCase s))"
    unfolding normalize_text_def
    by (simp only: concat_filter_nonempty concat_split_ws filter_trim)
  also have "\<dots> = filter is_lower_alnum (toLowerCase s)"
    unfolding strip_chars_def filter_filter
    by (rule filter_cong) (auto dest: alnum_not_space)
  finally show ?thesis .
qed

lemma normalize_text_words:
  assumes "w \<in> set (normalize_text s)"
  shows "w \<noteq> [] \<and> (\<forall>c \<in> set w. is_lower_alnum c)"
proof -
  from assms have ne: "w \<noteq> []" by (auto simp: normalize_text_def)
  from assms have "set w \<subseteq> set (concat (normalize_text s))" by auto
  then have "set w \<subseteq> set (filter is_lower_alnum (toLowerCase s))"
    by (simp only: concat_normalize_text)
  with ne show ?thesis by auto
qed

lemma toLowerCase_char_alnum: "is_lower_alnum c \<Longrightarrow> toLowerCase_char c = c"
  unfolding is_lower_alnum_def toLowerCase_char_def Let_def by auto

lemma space_facts: "is_space (CHR '' '')" "toLowerCase_char (CHR '' '') = CHR '' ''"
  by (simp_all add: is_space_def toLowerCase_char_def)

lemma join_words_chars:
  "list_all is_word ws \<Longrightarrow> c \<in> set (join_words ws) \<Longrightarrow> is_lower_alnum c \<or> c = CHR '' ''"
  by (induction ws rule: join_words.induct) (auto simp: is_word_def list_all_iff)

lemma toLowerCase_join_words: "list_all is_word ws \<Longrightarrow> toLowerCase (join_words ws) = join_words ws"
  unfolding toLowerCase_def
  by (rule map_idI) (auto dest: join_words_chars simp: toLowerCase_char_alnum space_facts)

lemma strip_chars_join_words: "list_all is_word ws \<Longrightarrow> strip_chars (join_words ws) = join_words ws"
  unfolding strip_chars_def
  by (rule filter_True) (auto dest: join_words_chars simp: space_facts)

lemma join_words_ends:
  "list_all is_word ws \<Longrightarrow> ws \<noteq> [] \<Longrightarrow>
   join_words ws \<noteq> [] \<and> \<not> is_space (hd (join_words ws)) \<and> \<not> is_space (last (join_words ws))"
proof (induction ws rule: join_words.induct)
  case 1
  then show ?case by simp
next
  case (2 w)
  then have "w \<noteq> []" "is_lower_alnum (hd w)" "is_lower_alnum (last w)"
    by (auto simp: is_word_def list_all_iff)
  then show ?case by (auto dest: alnum_not_space)
next
  case (3 w v vs)
  then have "w \<noteq> []" "is_lower_alnum (hd w)" by (auto simp: is_word_def list_all_iff)
  moreover from 3 have "join_words (v # vs) \<noteq> []" "\<not> is_space (last (join_words (v # vs)))"
    by simp_all
  ultimately show ?case by (auto dest: alnum_not_space)
qed

lemma trim_id: "t = [] \<or> (\<not> is_space (hd t) \<and> \<not> is_space (last t)) \<Longrightarrow> trim t = t"
proof (cases "t = []")
  case True
  then show ?thesis by (simp add: trim_def)
next
  case False
  assume "t = [] \<or> (\<not> is_space (hd t) \<and> \<not> is_space (last t))"
  with False have h: "\<not> is_space (hd t)" and l: "\<not> is_space (last t)" by simp_all
  from False h have "dropWhile is_space t = t" by (cases t) simp_all
  moreover from False l have "dropWhile is_space (rev t) = rev t"
    by (cases "rev t") (simp_all add: last_rev [symmetric] hd_rev)
  ultimately show ?thesis by (simp add: trim_def)
qed

lemma split_ws_letter:
  "\<not> is_space c \<Longrightarrow> split_ws (c # cs) = (c # hd (split_ws cs)) # tl (split_ws cs)"
  by (cases cs) (auto simp: split_ws_not_Nil split: list.splits)

lemma split_ws_space:
  "is_space c \<Longrightarrow> cs \<noteq> [] \<Longrightarrow> \<not> is_space (hd cs) \<Longrightarrow> split_ws (c # cs) = [] # split_ws cs"
  by (cases cs) simp_all

lemma split_ws_word:
  "list_all (\<lambda>c. \<not> is_space c) w \<Longrightarrow>
   split_ws (w @ r) = (w @ hd (split_ws r)) # tl (split_ws r)"
proof (induction w)
  case Nil
  then show ?case by (simp add: split_ws_not_Nil)
next
  case (Cons c w)
  then have "\<not> is_space c" and IH: "split_ws (w @ r) = (w @ hd (split_ws r)) # tl (split_ws r)"
    by simp_all
  from split_ws_letter [OF this(1), of "w @ r"] IH show ?case by simp
qed

lemma is_word_no_space: "is_word w \<Longrightarrow> list_all (\<lambda>c. \<not> is_space c) w"
  by (auto simp: is_word_def list_all_iff dest: alnum_not_space)

lemma split_ws_join_words:
  "list_all is_word ws \<Longrightarrow> ws \<noteq> [] \<Longrightarrow> split_ws (join_words ws) = ws"
proof (induction ws rule: join_words.induct)
  case 1
  then show ?case by simp
next
  case (2 w)
  then have "is_word w" by simp
  from split_ws_word [OF is_word_no_space [OF this], of "[]"] show ?case by simp
next
  case (3 w v vs)
  then have w: "is_word w" and rest: "list_all is_word (v # vs)" by simp_all
  from 3 rest have IH: "split_ws (join_words (v # vs)) = v # vs" by simp
  from join_words_ends [OF rest] have
    ne: "join_words (v # vs) \<noteq> []" and h: "\<not> is_space (hd (join_words (v # vs)))"
    by simp_all
  from split_ws_space [OF space_facts(1) ne h] IH
  have "split_ws (CHR '' '' # join_words (v # vs)) = [] # v # vs" by simp
  with split_ws_word [OF is_word_no_space [OF w], of "CHR '' '' # join_words (v # vs)"]
  show ?case by simp
qed

lemma normalize_text_join_words:
  assumes "list_all is_word ws"
  shows "normalize_text (join_words ws) = ws"
proof (cases "ws = []")
  case True
  then show ?thesis by (simp add: normalize_text_def toLowerCase_def strip_chars_def trim_def)
next
  case False
  from join_words_ends [OF assms False] have "trim (join_words ws) = join_words ws"
    by (intro trim_id) simp
  moreover from assms have "filter (\<lambda>word. length word > 0) ws = ws"
    by (intro filter_True) (auto simp: is_word_def list_all_iff)
  ultimately show ?thesis
    using assms False
    by (simp add: normalize_text_def toLowerCase_join_words strip_chars_join_words
        split_ws_join_words del: length_greater_0_conv)
qed

lemma normalize_Chicken_Biryani:
  "normalize_text ''Chicken Biryani'' = [''chicken'', ''biryani'']"
  by code_simp

lemma normalize_Biryani_Chicken:
  "normalize_text ''Biryani Chicken'' = [''biryani'', ''chicken'']"
  by code_simp

text \<open>
  Claim C5. \<open>calculateTextSimilarity\<close> is the specification's Jaccard function of the two
  word sets that \<open>normalize_text\<close> yields: 1.0 when both are empty, 0.0 when exactly one
  is, else the size of the intersection over the size of the union; being a function of
  the sets, it ignores the order and the repetitions of the words. The words of a string
  are non-empty, consist of the characters a-z and 0-9 only, and put together they are
  the lower-cased string without its other characters; a text made of such words with
  one space between them is split into exactly these words. The score of
  \<open>Chicken Biryani\<close> against \<open>Biryani Chicken\<close> is 1.0.
\<close>

theorem calculateTextSimilarity_word_set_jaccard:
  "calculateTextSimilarity s1 s2
     = Num (jaccard_spec (set (normalize_text s1)) (set (normalize_text s2))) \<and>
   (set (normalize_text s1) = set (normalize_text t1) \<and>
    set (normalize_text s2) = set (normalize_text t2)
      \<longrightarrow> calculateTextSimilarity s1 s2 = calculateTextSimilarity t1 t2) \<and>
   (\<forall>w \<in> set (normalize_text s1). w \<noteq> [] \<and> (\<forall>c \<in> set w. is_lower_alnum c)) \<and>
   concat (normalize_text s1) = filter is_lower_alnum (toLowerCase s1) \<and>
   (list_all is_word ws \<longrightarrow> normalize_text (join_words ws) = ws) \<and>
   calculateTextSimilarity ''Chicken Biryani'' ''Biryani Chicken'' = Num 1"
proof -
  have s: "set (normalize_text ''Biryani Chicken'') = set (normalize_text ''Chicken Biryani'')"
    by code_simp
  have "calculateTextSimilarity ''Chicken Biryani'' ''Biryani Chicken''
          = Num (jaccard_spec (set (normalize_text ''Chicken Biryani''))
                   (set (normalize_text ''Chicken Biryani'')))"
    by (simp only: calculateTextSimilarity_jaccard s)
  also have "\<dots> = Num 1"
    by (simp only: jaccard_spec_same [OF finite_set])
  finally have "calculateTextSimilarity ''Chicken Biryani'' ''Biryani Chicken'' = Num 1" .
  then show ?thesis
    using normalize_text_words [of _ s1] normalize_text_join_words [of ws]
    by (simp add: calculateTextSimilarity_jaccard concat_normalize_text)
qed

text \<open>
  C5 at a concrete input: the two strings have the same word set, so they score the
  same against \<open>chicken\<close>; that score is one half, one common word out of two; the
  word \<open>biryani\<close> of the first string is non-empty and made of letters; and the text
  \<open>chicken biryani\<close> is split into its two words.
\<close>

theorem calculateTextSimilarity_word_set_jaccard_witness:
  "set (normalize_text ''Chicken Biryani'') = set (normalize_text ''Biryani, CHICKEN! chicken'') \<and>
   set (normalize_text ''chicken'') = set (normalize_text ''chicken'') \<and>
   calculateTextSimilarity ''Chicken Biryani'' ''chicken''
     = calculateTextSimilarity ''Biryani, CHICKEN! chicken'' ''chicken'' \<and>
   calculateTextSimilarity ''Chicken Biryani'' ''chicken'' = Num (1 / 2) \<and>
   ''biryani'' \<in> set (normalize_text ''Chicken Biryani'') \<and>
   ''biryani'' \<noteq> [] \<and> list_all is_lower_alnum ''biryani'' \<and>
   list_all is_word [''chicken'', ''biryani''] \<and>
   normalize_text (join_words [''chicken'', ''biryani'']) = [''chicken'', ''biryani'']"
proof -
  have h1: "set (normalize_text ''Chicken Biryani'') = set (normalize_text ''Biryani, CHICKEN! chicken'')"
    by code_simp
  have h2: "set (normalize_text ''chicken'') = set (normalize_text ''chicken'')" by simp
  have m: "''biryani'' \<in> set (normalize_text ''Chicken Biryani'')"
    by code_simp
  note inst = calculateTextSimilarity_word_set_jaccard
               [of "''Chicken Biryani''" "''chicken''" "''Biryani, CHICKEN! chicken''" "''chicken''"
                   "[''chicken'', ''biryani'']"]
  have words: "list_all is_word [''chicken'', ''biryani'']" by code_simp
  with inst have split: "normalize_text (join_words [''chicken'', ''biryani''])
                           = [''chicken'', ''biryani'']"
    by blast
  from inst h1 h2
  have eq: "calculateTextSimilarity ''Chicken Biryani'' ''chicken''
              = calculateTextSimilarity ''Biryani, CHICKEN! chicken'' ''chicken''"
    by blast
  have l1: "length (normalize_text ''Chicken Biryani'') = 2" by code_simp
  have l2: "length (normalize_text ''chicken'') = 1" by code_simp
  have i: "length (remdups (filter (\<lambda>word. word \<in> set (remdups (normalize_text ''chicken'')))
                       (remdups (normalize_text ''Chicken Biryani'')))) = 1"
    by code_simp
  have u: "length (remdups (remdups (normalize_text ''Chicken Biryani'')
                             @ remdups (normalize_text ''chicken''))) = 2"
    by code_simp
  have half: "calculateTextSimilarity ''Chicken Biryani'' ''chicken'' = Num (1 / 2)"
    unfolding calculateTextSimilarity_def Let_def l1 l2 i u by simp
  from inst m have w: "''biryani'' \<noteq> [] \<and> (\<forall>c \<in> set ''biryani''. is_lower_alnum c)"
    by blast
  then have "list_all is_lower_alnum ''biryani''"
    unfolding list_all_iff by blast
  with h1 h2 eq half m w words split show ?thesis by blast
qed

section \<open>Properties of the cosine similarity\<close>

lemma overflow_threshold_pos: "2 ^ 1020 < overflow_threshold"
  by (simp add: overflow_threshold_def)

lemma underflow_threshold_small: "underflow_threshold < 1 / 2 ^ 1000" "0 < underflow_threshold"
  by (simp_all add: underflow_threshold_def)

lemma overflow_Num: "\<bar>r\<bar> \<le> 2 ^ 1020 \<Longrightarrow> overflow r = Num r"
  using overflow_threshold_pos by (auto simp: overflow_def)

lemma to_double_0 [simp]: "to_double 0 = Num 0"
  using underflow_threshold_small(2) by (simp add: to_double_def underflow_def overflow_Num)

lemma to_double_Num:
  "r = 0 \<or> 1 / 2 ^ 1000 \<le> \<bar>r\<bar> \<Longrightarrow> \<bar>r\<bar> \<le> 2 ^ 1020 \<Longrightarrow> to_double r = Num r"
  using underflow_threshold_small(1) by (auto simp: to_double_def underflow_def overflow_Num)

lemma to_double_1 [simp]: "to_double 1 = Num 1"
  by (rule to_double_Num) simp_all

lemma overflow_0 [simp]: "overflow 0 = Num 0"
  by (rule overflow_Num) simp

lemma overflow_1 [simp]: "overflow 1 = Num 1"
  by (rule overflow_Num) simp


















lemma calculateCosineSimilarity_error:
  "(\<exists>e. calculateCosineSimilarity a b = Inl e) \<longleftrightarrow> length a \<noteq> length b"
  by (auto simp: calculateCosineSimilarity_def Let_def split: prod.splits)

section \<open>Properties of the match selector\<close>

lemma consider_image_cases:
  assumes "consider_image cfg n e v st img = Inr st'"
  obtains (unchanged) "st' = st"
  | (by_cosine) s where "\<not> (v \<and> \<not> imageIsVegetarian img)"
      "calculateCosineSimilarity e (img_embedding img) = Inr s"
      "js_ge s (COSINE_SIMILARITY_THRESHOLD cfg)" "js_gt s (bestCosineScore st)"
      "st' = st\<lparr> bestMatch := Some img, bestCosineScore := s, method_str := ''cosine'',
                 reason := Cosine_similarity s (COSINE_SIMILARITY_THRESHOLD cfg) \<rparr>"
  | (by_text) s where "\<not> (v \<and> \<not> imageIsVegetarian img)"
      "calculateCosineSimilarity e (img_embedding img) = Inr s"
      "\<not> (js_ge s (COSINE_SIMILARITY_THRESHOLD cfg) \<and> js_gt s (bestCosineScore st))"
      "method_str st \<noteq> ''cosine''"
      "st' = st\<lparr> bestMatch := Some img,
                 bestTextScore := calculateTextSimilarity n (or_empty (img_name img)),
                 method_str := ''text'',
                 reason := Text_similarity (calculateTextSimilarity n (or_empty (img_name img)))
                             (TEXT_SIMILARITY_THRESHOLD cfg) \<rparr>"
proof (cases "v \<and> \<not> imageIsVegetarian img")
  case True
  with assms have "st' = st" by (simp add: consider_image_def)
  then show ?thesis by (rule unchanged)
next
  case False
  with assms obtain s where s: "calculateCosineSimilarity e (img_embedding img) = Inr s"
    by (cases "calculateCosineSimilarity e (img_embedding img)") (simp_all add: consider_image_def)
  show ?thesis
  proof (cases "js_ge s (COSINE_SIMILARITY_THRESHOLD cfg) \<and> js_gt s (bestCosineScore st)")
    case True
    with assms False s show ?thesis
      by (intro by_cosine [of s]) (simp_all add: consider_image_def)
  next
    case nq: False
    show ?thesis
    proof (cases "method_str st \<noteq> ''cosine''
                  \<and> js_ge (calculateTextSimilarity n (or_empty (img_name img)))
                       (TEXT_SIMILARITY_THRESHOLD cfg)
                  \<and> js_gt (calculateTextSimilarity n (or_empty (img_name img))) (bestTextScore st)")
      case True
      with assms False s nq show ?thesis
        by (intro by_text [of s]) (simp_all add: consider_image_def Let_def)
    next
      case False
      with assms \<open>\<not> (v \<and> \<not> imageIsVegetarian img)\<close> s nq have "st' = st"
        by (simp add: consider_image_def Let_def)
      then show ?thesis by (rule unchanged)
    qed
  qed
qed

lemma scan_images_Cons_Inr:
  assumes "scan_images cfg n e v st (img # imgs) = Inr st'"
  obtains st1 where "consider_image cfg n e v st img = Inr st1"
    and "scan_images cfg n e v st1 imgs = Inr st'"
  using assms by (auto split: sum.splits)

lemma scan_images_append:
  "scan_images cfg n e v st (xs @ ys) =
     (case scan_images cfg n e v st xs of
        Inl err \<Rightarrow> Inl err
      | Inr st1 \<Rightarrow> scan_images cfg n e v st1 ys)"
  by (induction xs arbitrary: st) (auto split: sum.splits)

lemma consider_image_vegetarian:
  "consider_image cfg n e True st img = Inr st' \<Longrightarrow> bestMatch st' = Some m \<Longrightarrow>
   bestMatch st = Some m \<or> (m = img \<and> imageIsVegetarian img)"
  by (erule consider_image_cases) auto

lemma scan_images_vegetarian:
  "scan_images cfg n e True st imgs = Inr st' \<Longrightarrow> bestMatch st' = Some m \<Longrightarrow>
   bestMatch st = Some m \<or> (m \<in> set imgs \<and> imageIsVegetarian m)"
proof (induction imgs arbitrary: st)
  case Nil
  then show ?case by simp
next
  case (Cons img imgs)
  from Cons.prems(1) obtain st1 where
    st1: "consider_image cfg n e True st img = Inr st1" "scan_images cfg n e True st1 imgs = Inr st'"
    by (rule scan_images_Cons_Inr)
  from Cons.IH [OF st1(2) Cons.prems(2)] consider_image_vegetarian [OF st1(1)]
  show ?case by auto
qed

lemma consider_image_member:
  "consider_image cfg n e v st img = Inr st' \<Longrightarrow> bestMatch st' = Some m \<Longrightarrow>
   bestMatch st = Some m \<or> m = img"
  by (erule consider_image_cases) auto

lemma scan_images_member:
  "scan_images cfg n e v st imgs = Inr st' \<Longrightarrow> bestMatch st' = Some m \<Longrightarrow>
   bestMatch st = Some m \<or> m \<in> set imgs"
proof (induction imgs arbitrary: st)
  case Nil
  then show ?case by simp
next
  case (Cons img imgs)
  from Cons.prems(1) obtain st1 where
    st1: "consider_image cfg n e v st img = Inr st1" "scan_images cfg n e v st1 imgs = Inr st'"
    by (rule scan_images_Cons_Inr)
  from Cons.IH [OF st1(2) Cons.prems(2)] consider_image_member [OF st1(1)]
  show ?case by auto
qed

lemma scan_images_all_filtered:
  "(\<And>img. img \<in> set imgs \<Longrightarrow> \<not> imageIsVegetarian img) \<Longrightarrow>
   scan_images cfg n e True st imgs = Inr st"
  by (induction imgs arbitrary: st) (auto simp: consider_image_def)

lemma state_ok_initial: "state_ok initial_state"
  by (simp add: state_ok_def initial_state_def)

lemma consider_image_state_ok:
  "consider_image cfg n e v st img = Inr st' \<Longrightarrow> state_ok st \<Longrightarrow> state_ok st'"
  by (erule consider_image_cases) (auto simp: state_ok_def)

lemma scan_images_state_ok:
  "scan_images cfg n e v st imgs = Inr st' \<Longrightarrow> state_ok st \<Longrightarrow> state_ok st'"
proof (induction imgs arbitrary: st)
  case Nil
  then show ?case by simp
next
  case (Cons img imgs)
  from Cons.prems(1) obtain st1 where
    st1: "consider_image cfg n e v st img = Inr st1" "scan_images cfg n e v st1 imgs = Inr st'"
    by (rule scan_images_Cons_Inr)
  from consider_image_state_ok [OF st1(1) Cons.prems(2)] have "state_ok st1" .
  with st1(2) show ?case by (rule Cons.IH)
qed

lemma consider_image_cosine_sticky:
  "consider_image cfg n e v st img = Inr st' \<Longrightarrow> method_str st = ''cosine'' \<Longrightarrow>
   method_str st' = ''cosine''"
  by (erule consider_image_cases) auto

lemma scan_images_cosine_sticky:
  "scan_images cfg n e v st imgs = Inr st' \<Longrightarrow> method_str st = ''cosine'' \<Longrightarrow>
   method_str st' = ''cosine''"
proof (induction imgs arbitrary: st)
  case Nil
  then show ?case by simp
next
  case (Cons img imgs)
  from Cons.prems(1) obtain st1 where
    st1: "consider_image cfg n e v st img = Inr st1" "scan_images cfg n e v st1 imgs = Inr st'"
    by (rule scan_images_Cons_Inr)
  from consider_image_cosine_sticky [OF st1(1) Cons.prems(2)] have "method_str st1 = ''cosine''" .
  with st1(2) show ?case by (rule Cons.IH)
qed

lemma js_ge_gt_trans: "js_ge s t \<Longrightarrow> js_gt t (Num 0) \<Longrightarrow> js_gt s (Num 0)"
  by (cases s; cases t) auto

lemma consider_image_qualifying:
  assumes "state_ok st" "method_str st \<noteq> ''cosine''"
    and "js_gt (COSINE_SIMILARITY_THRESHOLD cfg) (Num 0)"
    and "\<not> (v \<and> \<not> imageIsVegetarian img)"
    and "calculateCosineSimilarity e (img_embedding img) = Inr s"
    and "js_ge s (COSINE_SIMILARITY_THRESHOLD cfg)"
  shows "consider_image cfg n e v st img =
           Inr (st\<lparr> bestMatch := Some img, bestCosineScore := s, method_str := ''cosine'',
                     reason := Cosine_similarity s (COSINE_SIMILARITY_THRESHOLD cfg) \<rparr>)"
proof -
  from assms(1,2) have "bestCosineScore st = Num 0" by (auto simp: state_ok_def)
  moreover from assms(6,3) have "js_gt s (Num 0)" by (rule js_ge_gt_trans)
  ultimately show ?thesis using assms(4,5,6) by (auto simp add: consider_image_def)
qed

lemma scan_images_text_no_qualifying:
  assumes "scan_images cfg n e v st imgs = Inr st'" "state_ok st" "method_str st' = ''text''"
    and "js_gt (COSINE_SIMILARITY_THRESHOLD cfg) (Num 0)"
    and "img \<in> set imgs" "\<not> (v \<and> \<not> imageIsVegetarian img)"
  shows "\<exists>s. calculateCosineSimilarity e (img_embedding img) = Inr s
             \<and> \<not> js_ge s (COSINE_SIMILARITY_THRESHOLD cfg)"
  using assms(1,2,5)
proof (induction imgs arbitrary: st)
  case Nil
  then show ?case by simp
next
  case (Cons x imgs)
  from Cons.prems(1) obtain st1 where
    st1: "consider_image cfg n e v st x = Inr st1" "scan_images cfg n e v st1 imgs = Inr st'"
    by (rule scan_images_Cons_Inr)
  have ok1: "state_ok st1" using consider_image_state_ok [OF st1(1) Cons.prems(2)] .
  have nc1: "method_str st1 \<noteq> ''cosine''"
    using scan_images_cosine_sticky [OF st1(2)] assms(3) by auto
  have nc: "method_str st \<noteq> ''cosine''"
    using consider_image_cosine_sticky [OF st1(1)] nc1 by auto
  show ?case
  proof (cases "img = x")
    case True
    from st1(1) assms(6) True obtain s where
      s: "calculateCosineSimilarity e (img_embedding img) = Inr s"
      by (auto simp: consider_image_def split: sum.splits if_splits)
    have "\<not> js_ge s (COSINE_SIMILARITY_THRESHOLD cfg)"
    proof
      assume q: "js_ge s (COSINE_SIMILARITY_THRESHOLD cfg)"
      from consider_image_qualifying [OF Cons.prems(2) nc assms(4) assms(6) s q, of n] st1(1) True
      have "method_str st1 = ''cosine''" by auto
      with nc1 show False by simp
    qed
    with s show ?thesis by blast
  next
    case False
    with Cons.prems(3) have "img \<in> set imgs" by simp
    from Cons.IH [OF st1(2) ok1 this] show ?thesis .
  qed
qed

lemma findBestImageMatch_Inr:
  assumes "findBestImageMatch cm cfg n e v imgs = Inr r"
  obtains st m where "scan_images cfg n e v initial_state imgs = Inr st"
    and "bestMatch st = Some m" and "res_bestMatch r = Some m"
    and "res_method r = method_str st" and "res_reason r = reason st"
    and "get_property cm (property_key (img_name m)) = Value (res_url r)"
  using assms unfolding findBestImageMatch_def
  by (auto split: sum.splits option.splits property_value.splits)

lemma findBestImageMatch_no_match:
  "scan_images cfg n e v initial_state imgs = Inr st \<Longrightarrow> bestMatch st = None \<Longrightarrow>
   findBestImageMatch cm cfg n e v imgs = Inl (TypeError_null ''name'')"
  by (simp add: findBestImageMatch_def)

lemma findBestImageMatch_missing_cuisine:
  "scan_images cfg n e v initial_state imgs = Inr st \<Longrightarrow> bestMatch st = Some m \<Longrightarrow>
   get_property cm (property_key (img_name m)) = Nullish \<Longrightarrow>
   findBestImageMatch cm cfg n e v imgs = Inl (TypeError_undefined ''imageUrl'')"
  by (simp add: findBestImageMatch_def)

subsection \<open>The example data evaluated\<close>

lemma CONFIG_default:
  "CONFIG default_env =
     \<lparr> COSINE_SIMILARITY_THRESHOLD = Num 0.2, TEXT_SIMILARITY_THRESHOLD = Num 0.2,
       MAX_MEALS_PER_BATCH = 50 \<rparr>"
  by (simp add: CONFIG_def default_env_def or_default_def)

lemma cosine_same_axis: "calculateCosineSimilarity [Num 1, Num 0] [Num 1, Num 0] = Inr (Num 1)"
  by (simp add: calculateCosineSimilarity_def cosine_sums_def)

lemma cosine_other_axis: "calculateCosineSimilarity [Num 1, Num 0] [Num 0, Num 1] = Inr (Num 0)"
  by (simp add: calculateCosineSimilarity_def cosine_sums_def)

lemma example_map_Dal: "get_property example_map ''Dal'' = Value (Some ''https://img/dal.jpg'')"
  by (simp add: example_map_def example_cuisines_def loadCuisineMap_def set_property_def
      get_property_def new_Map_def falsy_def or_empty_def)

lemma get_property_empty_map:
  "get_property (loadCuisineMap (Inl err)) k
     = (if k \<in> set (Map_prototype_names @ Object_prototype_names) then Value None else Nullish)"
  by (simp add: loadCuisineMap_def new_Map_def get_property_def inherited_def Map_prototype_def
      Object_prototype_def)

lemma empty_map_Dal: "get_property empty_map ''Dal'' = Nullish"
  unfolding empty_map_def get_property_empty_map
  by (simp add: Map_prototype_names_def Object_prototype_names_def)

lemma empty_map_constructor: "get_property empty_map ''constructor'' = Value None"
  unfolding empty_map_def get_property_empty_map
  by (simp add: Map_prototype_names_def Object_prototype_names_def)

lemma text_Roti_Dal: "calculateTextSimilarity ''Roti'' ''Dal'' = Num 0"
proof -
  have l1: "length (normalize_text ''Roti'') = 1" by code_simp
  have l2: "length (normalize_text ''Dal'') = 1" by code_simp
  have i: "length (remdups (filter (\<lambda>word. word \<in> set (remdups (normalize_text ''Dal'')))
                       (remdups (normalize_text ''Roti'')))) = 0"
    by code_simp
  show ?thesis
    unfolding calculateTextSimilarity_def Let_def l1 l2 i by simp
qed

lemma example_map_Roti: "get_property example_map ''Roti'' = Value (Some ''https://img/roti.jpg'')"
  by (simp add: example_map_def example_cuisines_def loadCuisineMap_def set_property_def
      get_property_def new_Map_def falsy_def or_empty_def)

lemma text_Dal_Roti: "calculateTextSimilarity ''Dal'' ''Roti'' = Num 0"
proof -
  have l1: "length (normalize_text ''Dal'') = 1" by code_simp
  have l2: "length (normalize_text ''Roti'') = 1" by code_simp
  have i: "length (remdups (filter (\<lambda>word. word \<in> set (remdups (normalize_text ''Roti'')))
                       (remdups (normalize_text ''Dal'')))) = 0"
    by code_simp
  show ?thesis
    unfolding calculateTextSimilarity_def Let_def l1 l2 i by simp
qed

lemmas selector_defs = findBestImageMatch_def consider_image_def imageIsVegetarian_def
  initial_state_def CONFIG_default or_empty_def property_key_def Let_def

text \<open>
  Claim C1. Its first half holds: whenever \<open>findBestImageMatch\<close> returns for a vegetarian
  meal, the best match is an image of the catalog whose resolved vegetarian flag is true,
  whatever the scores. Its second half does not: when every image of the catalog is
  non-vegetarian, no result with method \<open>none\<close> is returned; building the result reads
  \<open>bestMatch.name\<close> of \<open>null\<close> and throws a TypeError, which \<open>processMealBatch\<close> records
  as an \<open>error\<close> entry for the meal.
\<close>

theorem vegetarian_fail_safe:
  "(findBestImageMatch cm cfg mealName emb True imgs = Inr r \<longrightarrow>
      (\<exists>m \<in> set imgs. res_bestMatch r = Some m \<and> imageIsVegetarian m)) \<and>
   ((\<forall>img \<in> set imgs. \<not> imageIsVegetarian img) \<longrightarrow>
      findBestImageMatch cm cfg mealName emb True imgs = Inl (TypeError_null ''name'')) \<and>
   ((\<forall>img \<in> set imgs. \<not> imageIsVegetarian img) \<and> meal_isVegetarian meal \<and>
    gen k (meal_name meal) = Inr emb \<longrightarrow>
      processMeal cm cfg gen k meal imgs = error_result meal (TypeError_null ''name''))"
proof -
  have a: "\<exists>m \<in> set imgs. res_bestMatch r = Some m \<and> imageIsVegetarian m"
    if "findBestImageMatch cm cfg mealName emb True imgs = Inr r"
  proof -
    from that obtain st m where
      st: "scan_images cfg mealName emb True initial_state imgs = Inr st"
      and m: "bestMatch st = Some m" "res_bestMatch r = Some m"
      by (rule findBestImageMatch_Inr)
    from scan_images_vegetarian [OF st m(1)] have "m \<in> set imgs \<and> imageIsVegetarian m"
      by (simp add: initial_state_def)
    with m(2) show ?thesis by blast
  qed
  have b: "findBestImageMatch cm cfg n emb True imgs = Inl (TypeError_null ''name'')"
    if "\<forall>img \<in> set imgs. \<not> imageIsVegetarian img" for n
  proof -
    from that have "scan_images cfg n emb True initial_state imgs = Inr initial_state"
      by (intro scan_images_all_filtered) blast
    then show ?thesis
      by (rule findBestImageMatch_no_match) (simp add: initial_state_def)
  qed
  have c: "processMeal cm cfg gen k meal imgs = error_result meal (TypeError_null ''name'')"
    if "\<forall>img \<in> set imgs. \<not> imageIsVegetarian img" "meal_isVegetarian meal"
       "gen k (meal_name meal) = Inr emb"
    using that b [OF that(1), of "meal_name meal"] by (simp add: processMeal_def)
  from a b c show ?thesis by blast
qed

text \<open>
  C1 at concrete inputs: for the vegetarian meal \<open>Dal\<close> and the catalog of the
  non-vegetarian chicken image followed by the vegetarian dal image, the dal image is
  returned; for the catalog of the chicken image alone the call throws and the meal is
  recorded as an error.
\<close>

theorem vegetarian_fail_safe_witness:
  "findBestImageMatch example_map (CONFIG default_env) ''Dal'' [Num 1, Num 0] True
     [chicken_image, dal_image]
     = Inr \<lparr> res_bestMatch = Some dal_image, res_cosineScore = Num 1, res_textScore = Num 0,
             res_method = ''cosine'', res_reason = Cosine_similarity (Num 1) (Num 0.2),
             res_url = Some ''https://img/dal.jpg'' \<rparr> \<and>
   (\<exists>m \<in> set [chicken_image, dal_image]. Some dal_image = Some m \<and> imageIsVegetarian m) \<and>
   list_all (\<lambda>img. \<not> imageIsVegetarian img) [chicken_image] \<and>
   findBestImageMatch example_map (CONFIG default_env) ''Dal'' [Num 1, Num 0] True [chicken_image]
     = Inl (TypeError_null ''name'') \<and>
   processMeal example_map (CONFIG default_env) (\<lambda>k name. Inr [Num 1, Num 0]) 0
       \<lparr> meal_id = Request_id 0, meal_name = ''Dal'', meal_isVegetarian = True \<rparr> [chicken_image]
     = error_result \<lparr> meal_id = Request_id 0, meal_name = ''Dal'', meal_isVegetarian = True \<rparr>
         (TypeError_null ''name'')"
proof -
  let ?r = "\<lparr> res_bestMatch = Some dal_image, res_cosineScore = Num 1, res_textScore = Num 0,
               res_method = ''cosine'', res_reason = Cosine_similarity (Num 1) (Num 0.2),
               res_url = Some ''https://img/dal.jpg'' \<rparr>"
  let ?meal = "\<lparr> meal_id = Request_id 0, meal_name = ''Dal'', meal_isVegetarian = True \<rparr>"
  have e1: "findBestImageMatch example_map (CONFIG default_env) ''Dal'' [Num 1, Num 0] True
              [chicken_image, dal_image] = Inr ?r"
    by (simp add: selector_defs chicken_image_def dal_image_def cosine_same_axis
        calculateTextSimilarity_same example_map_Dal)
  have nv: "\<forall>img \<in> set [chicken_image]. \<not> imageIsVegetarian img"
    by (simp add: imageIsVegetarian_def chicken_image_def)
  from vegetarian_fail_safe
         [of example_map "CONFIG default_env" "''Dal''" "[Num 1, Num 0]"
             "[chicken_image, dal_image]" ?r ?meal "\<lambda>k name. Inr [Num 1, Num 0]" 0] e1
  have w1: "\<exists>m \<in> set [chicken_image, dal_image]. Some dal_image = Some m \<and> imageIsVegetarian m"
    by simp
  from vegetarian_fail_safe
         [of example_map "CONFIG default_env" "''Dal''" "[Num 1, Num 0]" "[chicken_image]" ?r ?meal
             "\<lambda>k name. Inr [Num 1, Num 0]" 0] nv
  have w2: "findBestImageMatch example_map (CONFIG default_env) ''Dal'' [Num 1, Num 0] True
              [chicken_image] = Inl (TypeError_null ''name'')"
    by blast
  from vegetarian_fail_safe
         [of example_map "CONFIG default_env" "''Dal''" "[Num 1, Num 0]" "[chicken_image]" ?r ?meal
             "\<lambda>k name. Inr [Num 1, Num 0]" 0] nv
  have w3: "processMeal example_map (CONFIG default_env) (\<lambda>k name. Inr [Num 1, Num 0]) 0 ?meal
              [chicken_image] = error_result ?meal (TypeError_null ''name'')"
    by simp
  from nv have "list_all (\<lambda>img. \<not> imageIsVegetarian img) [chicken_image]"
    by (simp add: list_all_iff)
  with e1 w1 w2 w3 show ?thesis by blast
qed

text \<open>
  Claim C2 does not hold of the code: a no-match result is never returned. With an empty
  catalog, and whenever the loop ends without a best match, building the result reads
  \<open>bestMatch.name\<close> of \<open>null\<close> and throws a TypeError; every result that is returned has
  a best match, a method other than \<open>none\<close> and a reason other than
  \<open>No suitable match found\<close>; in a batch the meal is recorded as an \<open>error\<close> entry.
\<close>

theorem no_match_throws:
  "findBestImageMatch cm cfg mealName emb v [] = Inl (TypeError_null ''name'') \<and>
   (scan_images cfg mealName emb v initial_state imgs = Inr st \<and> bestMatch st = None \<longrightarrow>
      findBestImageMatch cm cfg mealName emb v imgs = Inl (TypeError_null ''name'')) \<and>
   (findBestImageMatch cm cfg mealName emb v imgs = Inr r \<longrightarrow>
      res_bestMatch r \<noteq> None \<and> res_method r \<noteq> ''none'' \<and> res_reason r \<noteq> No_suitable_match) \<and>
   (gen k (meal_name meal) = Inr emb \<longrightarrow>
      processMeal cm cfg gen k meal [] = error_result meal (TypeError_null ''name''))"
proof -
  have a: "findBestImageMatch cm cfg n emb w [] = Inl (TypeError_null ''name'')" for n w
    by (simp add: findBestImageMatch_def initial_state_def)
  have c: "res_bestMatch r \<noteq> None \<and> res_method r \<noteq> ''none'' \<and> res_reason r \<noteq> No_suitable_match"
    if "findBestImageMatch cm cfg mealName emb v imgs = Inr r"
  proof -
    from that obtain st m where
      st: "scan_images cfg mealName emb v initial_state imgs = Inr st"
      and m: "bestMatch st = Some m" "res_bestMatch r = Some m"
        "res_method r = method_str st" "res_reason r = reason st"
      by (rule findBestImageMatch_Inr)
    from scan_images_state_ok [OF st state_ok_initial] have "state_ok st" .
    with m show ?thesis by (auto simp: state_ok_def)
  qed
  have d: "processMeal cm cfg gen k meal [] = error_result meal (TypeError_null ''name'')"
    if "gen k (meal_name meal) = Inr emb"
    using that a by (simp add: processMeal_def)
  from a c d show ?thesis by (simp add: findBestImageMatch_no_match)
qed

text \<open>
  C2 at concrete inputs: with the roti image alone, the meal \<open>Dal\<close> meets neither
  threshold and the call throws; the result returned for the catalog of the dal image
  has method \<open>cosine\<close>; with an empty catalog the meal is recorded as an error.
\<close>

theorem no_match_throws_witness:
  "scan_images (CONFIG default_env) ''Dal'' [Num 1, Num 0] False initial_state [roti_image]
     = Inr initial_state \<and>
   bestMatch initial_state = None \<and>
   findBestImageMatch example_map (CONFIG default_env) ''Dal'' [Num 1, Num 0] False [roti_image]
     = Inl (TypeError_null ''name'') \<and>
   findBestImageMatch example_map (CONFIG default_env) ''Dal'' [Num 1, Num 0] False [dal_image]
     = Inr \<lparr> res_bestMatch = Some dal_image, res_cosineScore = Num 1, res_textScore = Num 0,
             res_method = ''cosine'', res_reason = Cosine_similarity (Num 1) (Num 0.2),
             res_url = Some ''https://img/dal.jpg'' \<rparr> \<and>
   ''cosine'' \<noteq> ''none'' \<and>
   processMeal example_map (CONFIG default_env) (\<lambda>k name. Inr [Num 1, Num 0]) 0
       \<lparr> meal_id = Request_id 0, meal_name = ''Dal'', meal_isVegetarian = False \<rparr> []
     = error_result \<lparr> meal_id = Request_id 0, meal_name = ''Dal'', meal_isVegetarian = False \<rparr>
         (TypeError_null ''name'')"
proof -
  let ?r = "\<lparr> res_bestMatch = Some dal_image, res_cosineScore = Num 1, res_textScore = Num 0,
               res_method = ''cosine'', res_reason = Cosine_similarity (Num 1) (Num 0.2),
               res_url = Some ''https://img/dal.jpg'' \<rparr>"
  let ?meal = "\<lparr> meal_id = Request_id 0, meal_name = ''Dal'', meal_isVegetarian = False \<rparr>"
  have s: "scan_images (CONFIG default_env) ''Dal'' [Num 1, Num 0] False initial_state [roti_image]
             = Inr initial_state"
    by (simp add: selector_defs roti_image_def cosine_other_axis text_Dal_Roti)
  have n: "bestMatch initial_state = None" by (simp add: initial_state_def)
  have e: "findBestImageMatch example_map (CONFIG default_env) ''Dal'' [Num 1, Num 0] False
             [dal_image] = Inr ?r"
    by (simp add: selector_defs dal_image_def cosine_same_axis calculateTextSimilarity_same
        example_map_Dal)
  from no_match_throws
         [of example_map "CONFIG default_env" "''Dal''" "[Num 1, Num 0]" False "[roti_image]"
             initial_state ?r "\<lambda>k name. Inr [Num 1, Num 0]" 0 ?meal] s n
  have w1: "findBestImageMatch example_map (CONFIG default_env) ''Dal'' [Num 1, Num 0] False
              [roti_image] = Inl (TypeError_null ''name'')"
    by blast
  from no_match_throws
         [of example_map "CONFIG default_env" "''Dal''" "[Num 1, Num 0]" False "[dal_image]"
             initial_state ?r "\<lambda>k name. Inr [Num 1, Num 0]" 0 ?meal] e
  have w2: "''cosine'' \<noteq> ''none''" by simp
  from no_match_throws
         [of example_map "CONFIG default_env" "''Dal''" "[Num 1, Num 0]" False "[dal_image]"
             initial_state ?r "\<lambda>k name. Inr [Num 1, Num 0]" 0 ?meal]
  have w3: "processMeal example_map (CONFIG default_env) (\<lambda>k name. Inr [Num 1, Num 0]) 0 ?meal []
              = error_result ?meal (TypeError_null ''name'')"
    by simp
  from s n e w1 w2 w3 show ?thesis by blast
qed

lemma consider_image_returns:
  "\<not> (v \<and> \<not> imageIsVegetarian img) \<Longrightarrow>
   calculateCosineSimilarity e (img_embedding img) = Inr s \<Longrightarrow>
   \<exists>st'. consider_image cfg n e v st img = Inr st'"
  by (auto simp: consider_image_def Let_def)

lemma scan_images_qualifying_is_cosine:
  assumes "scan_images cfg n e v initial_state xs = Inr st1"
    and "js_gt (COSINE_SIMILARITY_THRESHOLD cfg) (Num 0)"
    and "\<not> (v \<and> \<not> imageIsVegetarian img)"
    and "calculateCosineSimilarity e (img_embedding img) = Inr s"
    and "js_ge s (COSINE_SIMILARITY_THRESHOLD cfg)"
  shows "\<exists>st. scan_images cfg n e v initial_state (xs @ [img]) = Inr st
              \<and> method_str st = ''cosine''"
proof -
  from scan_images_state_ok [OF assms(1) state_ok_initial] have ok: "state_ok st1" .
  show ?thesis
  proof (cases "method_str st1 = ''cosine''")
    case True
    from consider_image_returns [OF assms(3,4)] obtain st' where
      st': "consider_image cfg n e v st1 img = Inr st'"
      by blast
    from consider_image_cosine_sticky [OF st' True] st' assms(1) show ?thesis
      by (simp add: scan_images_append)
  next
    case False
    from consider_image_qualifying [OF ok False assms(2,3,4,5), of n] assms(1) show ?thesis
      by (simp add: scan_images_append)
  qed
qed

text \<open>
  Claim C4, for a positive cosine threshold (the default 0.2 is one). (a) When an image
  that passes the vegetarian filter has a cosine score that meets the threshold, the
  scan up to and including that image ends with the method \<open>cosine\<close>; and once the scan
  of a prefix of the catalog has ended with \<open>cosine\<close>, the scan of any extension ends
  with \<open>cosine\<close> too: no later image is taken by text. (b) If the result returned has
  method \<open>text\<close>, every image of the catalog that passes the vegetarian filter has a
  cosine score below the threshold. (c) If the scan of a prefix ends with a text match
  and the next image passes the filter with a cosine score that meets the threshold,
  that image replaces the text match and the method becomes \<open>cosine\<close>.
\<close>

theorem cosine_dominates_text:
  "js_gt (COSINE_SIMILARITY_THRESHOLD cfg) (Num 0) \<longrightarrow>
     (scan_images cfg n e v initial_state xs = Inr st1 \<and>
      \<not> (v \<and> \<not> imageIsVegetarian img) \<and>
      calculateCosineSimilarity e (img_embedding img) = Inr s \<and>
      js_ge s (COSINE_SIMILARITY_THRESHOLD cfg)
        \<longrightarrow> (\<exists>st. scan_images cfg n e v initial_state (xs @ [img]) = Inr st
                   \<and> method_str st = ''cosine'')) \<and>
     (scan_images cfg n e v initial_state xs = Inr st1 \<and> method_str st1 = ''cosine'' \<and>
      scan_images cfg n e v initial_state (xs @ ys) = Inr st2
        \<longrightarrow> method_str st2 = ''cosine'') \<and>
     (findBestImageMatch cm cfg n e v imgs = Inr r \<and> res_method r = ''text''
        \<longrightarrow> (\<forall>x \<in> set imgs. \<not> (v \<and> \<not> imageIsVegetarian x)
               \<longrightarrow> (\<exists>c. calculateCosineSimilarity e (img_embedding x) = Inr c
                         \<and> \<not> js_ge c (COSINE_SIMILARITY_THRESHOLD cfg)))) \<and>
     (scan_images cfg n e v initial_state xs = Inr st1 \<and> method_str st1 = ''text'' \<and>
      \<not> (v \<and> \<not> imageIsVegetarian img) \<and>
      calculateCosineSimilarity e (img_embedding img) = Inr s \<and>
      js_ge s (COSINE_SIMILARITY_THRESHOLD cfg)
        \<longrightarrow> scan_images cfg n e v initial_state (xs @ [img])
              = Inr (st1\<lparr> bestMatch := Some img, bestCosineScore := s, method_str := ''cosine'',
                          reason := Cosine_similarity s (COSINE_SIMILARITY_THRESHOLD cfg) \<rparr>))"
proof
  assume pos: "js_gt (COSINE_SIMILARITY_THRESHOLD cfg) (Num 0)"
  have a: "\<exists>st. scan_images cfg n e v initial_state (xs @ [img]) = Inr st
                \<and> method_str st = ''cosine''"
    if "scan_images cfg n e v initial_state xs = Inr st1"
       "\<not> (v \<and> \<not> imageIsVegetarian img)"
       "calculateCosineSimilarity e (img_embedding img) = Inr s"
       "js_ge s (COSINE_SIMILARITY_THRESHOLD cfg)"
    using scan_images_qualifying_is_cosine [OF that(1) pos that(2,3,4)] .
  have a2: "method_str st2 = ''cosine''"
    if "scan_images cfg n e v initial_state xs = Inr st1" "method_str st1 = ''cosine''"
       "scan_images cfg n e v initial_state (xs @ ys) = Inr st2"
  proof -
    from that(1,3) have "scan_images cfg n e v st1 ys = Inr st2"
      by (simp add: scan_images_append)
    from scan_images_cosine_sticky [OF this that(2)] show ?thesis .
  qed
  have b: "\<exists>c. calculateCosineSimilarity e (img_embedding x) = Inr c
               \<and> \<not> js_ge c (COSINE_SIMILARITY_THRESHOLD cfg)"
    if "findBestImageMatch cm cfg n e v imgs = Inr r" "res_method r = ''text''"
       "x \<in> set imgs" "\<not> (v \<and> \<not> imageIsVegetarian x)" for x
  proof -
    from that(1) obtain st m where
      st: "scan_images cfg n e v initial_state imgs = Inr st"
      and m: "res_method r = method_str st"
      by (rule findBestImageMatch_Inr)
    from m that(2) have "method_str st = ''text''" by simp
    from scan_images_text_no_qualifying [OF st state_ok_initial this pos that(3,4)]
    show ?thesis .
  qed
  have c: "scan_images cfg n e v initial_state (xs @ [img])
             = Inr (st1\<lparr> bestMatch := Some img, bestCosineScore := s, method_str := ''cosine'',
                         reason := Cosine_similarity s (COSINE_SIMILARITY_THRESHOLD cfg) \<rparr>)"
    if "scan_images cfg n e v initial_state xs = Inr st1" "method_str st1 = ''text''"
       "\<not> (v \<and> \<not> imageIsVegetarian img)"
       "calculateCosineSimilarity e (img_embedding img) = Inr s"
       "js_ge s (COSINE_SIMILARITY_THRESHOLD cfg)"
  proof -
    from scan_images_state_ok [OF that(1) state_ok_initial] have ok: "state_ok st1" .
    from that(2) have nc: "method_str st1 \<noteq> ''cosine''" by simp
    from consider_image_qualifying [OF ok nc pos that(3,4,5), of n] that(1)
    show ?thesis by (simp add: scan_images_append)
  qed
  from a a2 b c
  show "(scan_images cfg n e v initial_state xs = Inr st1 \<and>
      \<not> (v \<and> \<not> imageIsVegetarian img) \<and>
      calculateCosineSimilarity e (img_embedding img) = Inr s \<and>
      js_ge s (COSINE_SIMILARITY_THRESHOLD cfg)
        \<longrightarrow> (\<exists>st. scan_images cfg n e v initial_state (xs @ [img]) = Inr st
                   \<and> method_str st = ''cosine'')) \<and>
     (scan_images cfg n e v initial_state xs = Inr st1 \<and> method_str st1 = ''cosine'' \<and>
      scan_images cfg n e v initial_state (xs @ ys) = Inr st2
        \<longrightarrow> method_str st2 = ''cosine'') \<and>
     (findBestImageMatch cm cfg n e v imgs = Inr r \<and> res_method r = ''text''
        \<longrightarrow> (\<forall>x \<in> set imgs. \<not> (v \<and> \<not> imageIsVegetarian x)
               \<longrightarrow> (\<exists>c. calculateCosineSimilarity e (img_embedding x) = Inr c
                         \<and> \<not> js_ge c (COSINE_SIMILARITY_THRESHOLD cfg)))) \<and>
     (scan_images cfg n e v initial_state xs = Inr st1 \<and> method_str st1 = ''text'' \<and>
      \<not> (v \<and> \<not> imageIsVegetarian img) \<and>
      calculateCosineSimilarity e (img_embedding img) = Inr s \<and>
      js_ge s (COSINE_SIMILARITY_THRESHOLD cfg)
        \<longrightarrow> scan_images cfg n e v initial_state (xs @ [img])
              = Inr (st1\<lparr> bestMatch := Some img, bestCosineScore := s, method_str := ''cosine'',
                          reason := Cosine_similarity s (COSINE_SIMILARITY_THRESHOLD cfg) \<rparr>))"
    by blast
qed

text \<open>
  C4 at concrete inputs, for the meal \<open>Roti\<close> with embedding \<open>[1, 0]\<close> and the default
  thresholds. The roti image matches by text only (cosine 0, text 1) and the dal image by
  cosine (cosine 1). Scanning the roti image alone ends with \<open>text\<close>, and its cosine
  score does not meet the threshold; appending the dal image replaces it by \<open>cosine\<close>;
  scanning the dal image first and the roti image after it stays with \<open>cosine\<close> and the
  dal image.
\<close>

theorem cosine_dominates_text_witness:
  "js_gt (COSINE_SIMILARITY_THRESHOLD (CONFIG default_env)) (Num 0) \<and>
   findBestImageMatch example_map (CONFIG default_env) ''Roti'' [Num 1, Num 0] False [roti_image]
     = Inr \<lparr> res_bestMatch = Some roti_image, res_cosineScore = Num 0, res_textScore = Num 1,
             res_method = ''text'', res_reason = Text_similarity (Num 1) (Num 0.2),
             res_url = Some ''https://img/roti.jpg'' \<rparr> \<and>
   (\<exists>c. calculateCosineSimilarity [Num 1, Num 0] (img_embedding roti_image) = Inr c
        \<and> \<not> js_ge c (COSINE_SIMILARITY_THRESHOLD (CONFIG default_env))) \<and>
   scan_images (CONFIG default_env) ''Roti'' [Num 1, Num 0] False initial_state [roti_image]
     = Inr (initial_state\<lparr> bestMatch := Some roti_image, bestTextScore := Num 1,
                           method_str := ''text'',
                           reason := Text_similarity (Num 1) (Num 0.2) \<rparr>) \<and>
   calculateCosineSimilarity [Num 1, Num 0] (img_embedding dal_image) = Inr (Num 1) \<and>
   js_ge (Num 1) (COSINE_SIMILARITY_THRESHOLD (CONFIG default_env)) \<and>
   (\<exists>st. scan_images (CONFIG default_env) ''Roti'' [Num 1, Num 0] False initial_state
            ([roti_image] @ [dal_image]) = Inr st \<and> method_str st = ''cosine'') \<and>
   scan_images (CONFIG default_env) ''Roti'' [Num 1, Num 0] False initial_state
       ([roti_image] @ [dal_image])
     = Inr (initial_state\<lparr> bestMatch := Some dal_image, bestTextScore := Num 1,
                           bestCosineScore := Num 1, method_str := ''cosine'',
                           reason := Cosine_similarity (Num 1) (Num 0.2) \<rparr>) \<and>
   scan_images (CONFIG default_env) ''Roti'' [Num 1, Num 0] False initial_state [dal_image]
     = Inr (initial_state\<lparr> bestMatch := Some dal_image, bestCosineScore := Num 1,
                           method_str := ''cosine'',
                           reason := Cosine_similarity (Num 1) (Num 0.2) \<rparr>) \<and>
   scan_images (CONFIG default_env) ''Roti'' [Num 1, Num 0] False initial_state
       ([dal_image] @ [roti_image])
     = Inr (initial_state\<lparr> bestMatch := Some dal_image, bestCosineScore := Num 1,
                           method_str := ''cosine'',
                           reason := Cosine_similarity (Num 1) (Num 0.2) \<rparr>)"
proof -
  let ?cfg = "CONFIG default_env"
  let ?r = "\<lparr> res_bestMatch = Some roti_image, res_cosineScore = Num 0, res_textScore = Num 1,
               res_method = ''text'', res_reason = Text_similarity (Num 1) (Num 0.2),
               res_url = Some ''https://img/roti.jpg'' \<rparr>"
  let ?t = "initial_state\<lparr> bestMatch := Some roti_image, bestTextScore := Num 1,
                           method_str := ''text'',
                           reason := Text_similarity (Num 1) (Num 0.2) \<rparr>"
  let ?c = "initial_state\<lparr> bestMatch := Some dal_image, bestCosineScore := Num 1,
                           method_str := ''cosine'',
                           reason := Cosine_similarity (Num 1) (Num 0.2) \<rparr>"
  have pos: "js_gt (COSINE_SIMILARITY_THRESHOLD ?cfg) (Num 0)"
    by (simp add: CONFIG_default)
  have thr: "COSINE_SIMILARITY_THRESHOLD ?cfg = Num 0.2" by (simp add: CONFIG_default)
  have e: "findBestImageMatch example_map ?cfg ''Roti'' [Num 1, Num 0] False [roti_image] = Inr ?r"
    by (simp add: selector_defs roti_image_def cosine_other_axis calculateTextSimilarity_same
        example_map_Roti)
  have st: "scan_images ?cfg ''Roti'' [Num 1, Num 0] False initial_state [roti_image] = Inr ?t"
    by (simp add: selector_defs roti_image_def cosine_other_axis calculateTextSimilarity_same)
  have sc: "scan_images ?cfg ''Roti'' [Num 1, Num 0] False initial_state [dal_image] = Inr ?c"
    by (simp add: selector_defs dal_image_def cosine_same_axis)
  have sd: "scan_images ?cfg ''Roti'' [Num 1, Num 0] False initial_state ([dal_image] @ [roti_image])
              = Inr ?c"
    by (simp add: selector_defs dal_image_def roti_image_def cosine_same_axis cosine_other_axis)
  have cd: "calculateCosineSimilarity [Num 1, Num 0] (img_embedding dal_image) = Inr (Num 1)"
    by (simp add: dal_image_def cosine_same_axis)
  have q: "js_ge (Num 1) (COSINE_SIMILARITY_THRESHOLD ?cfg)" by (simp add: thr)
  have mt: "method_str ?t = ''text''" and mc: "method_str ?c = ''cosine''" by simp_all
  note inst = cosine_dominates_text
                [of ?cfg "''Roti''" "[Num 1, Num 0]" False "[roti_image]" ?t dal_image "Num 1"
                    "[dal_image]" _ example_map "[roti_image]" ?r]
  from inst pos e have
    b: "\<exists>c. calculateCosineSimilarity [Num 1, Num 0] (img_embedding roti_image) = Inr c
            \<and> \<not> js_ge c (COSINE_SIMILARITY_THRESHOLD ?cfg)"
    by simp
  from inst pos st cd q have
    a: "\<exists>st. scan_images ?cfg ''Roti'' [Num 1, Num 0] False initial_state
                ([roti_image] @ [dal_image]) = Inr st \<and> method_str st = ''cosine''"
    by blast
  from inst pos st mt cd q have
    "scan_images ?cfg ''Roti'' [Num 1, Num 0] False initial_state ([roti_image] @ [dal_image])
       = Inr (?t\<lparr> bestMatch := Some dal_image, bestCosineScore := Num 1, method_str := ''cosine'',
                  reason := Cosine_similarity (Num 1) (COSINE_SIMILARITY_THRESHOLD ?cfg) \<rparr>)"
    by blast
  then have
    c: "scan_images ?cfg ''Roti'' [Num 1, Num 0] False initial_state ([roti_image] @ [dal_image])
          = Inr (initial_state\<lparr> bestMatch := Some dal_image, bestTextScore := Num 1,
                                bestCosineScore := Num 1, method_str := ''cosine'',
                                reason := Cosine_similarity (Num 1) (Num 0.2) \<rparr>)"
    by (simp add: thr initial_state_def)
  from cosine_dominates_text
         [of ?cfg "''Roti''" "[Num 1, Num 0]" False "[dal_image]" ?c dal_image "Num 1"
             "[roti_image]" ?c example_map "[roti_image]" ?r] pos sc mc sd
  have a2: "method_str ?c = ''cosine''" by blast
  from pos e b st cd q a c sc sd show ?thesis by blast
qed

text \<open>
  C4 as stated fails when the cosine threshold is negative. With the threshold set to
  \<open>-0.5\<close>, the roti image has the qualifying cosine score \<open>0\<close> (it is at least the
  threshold) for the meal \<open>Roti\<close>, but \<open>0\<close> does not exceed the initial best cosine score
  \<open>0\<close>, so the image is taken by text and the final method is \<open>text\<close>.
\<close>

theorem negative_threshold_counterexample:
  "CONFIG \<lparr> env_COSINE_SIMILARITY_THRESHOLD = Num (- 0.5), env_TEXT_SIMILARITY_THRESHOLD = NaN,
            env_MAX_MEALS_PER_BATCH = None \<rparr>
     = \<lparr> COSINE_SIMILARITY_THRESHOLD = Num (- 0.5), TEXT_SIMILARITY_THRESHOLD = Num 0.2,
         MAX_MEALS_PER_BATCH = 50 \<rparr> \<and>
   calculateCosineSimilarity [Num 1, Num 0] (img_embedding roti_image) = Inr (Num 0) \<and>
   js_ge (Num 0) (Num (- 0.5)) \<and>
   findBestImageMatch example_map
       \<lparr> COSINE_SIMILARITY_THRESHOLD = Num (- 0.5), TEXT_SIMILARITY_THRESHOLD = Num 0.2,
         MAX_MEALS_PER_BATCH = 50 \<rparr>
       ''Roti'' [Num 1, Num 0] False [roti_image]
     = Inr \<lparr> res_bestMatch = Some roti_image, res_cosineScore = Num 0, res_textScore = Num 1,
             res_method = ''text'', res_reason = Text_similarity (Num 1) (Num 0.2),
             res_url = Some ''https://img/roti.jpg'' \<rparr>"
  by (simp add: CONFIG_def or_default_def findBestImageMatch_def consider_image_def
      imageIsVegetarian_def initial_state_def or_empty_def property_key_def Let_def
      roti_image_def cosine_other_axis calculateTextSimilarity_same example_map_Roti)

text \<open>
  Claim C9, as the code has it. If the loop ends with a best match and reading the
  cuisine map under the name of that image yields \<open>undefined\<close>, building the result reads
  \<open>imageUrl\<close> of \<open>undefined\<close> and throws a TypeError instead of returning, and the
  per-meal catch records the meal with method \<open>error\<close> and that error and no image, although a
  qualifying image existed. On the empty map that replaces a cuisine file that failed to
  load, the read yields \<open>undefined\<close> for every name but those of the properties a \<open>Map\<close>
  inherits.
\<close>

theorem missing_cuisine_throws:
  "(scan_images cfg n e v initial_state imgs = Inr st \<and> bestMatch st = Some m \<and>
    get_property cm (property_key (img_name m)) = Nullish
      \<longrightarrow> findBestImageMatch cm cfg n e v imgs = Inl (TypeError_undefined ''imageUrl'') \<and>
          (gen k (meal_name meal) = Inr e \<and> meal_name meal = n \<and> meal_isVegetarian meal = v
             \<longrightarrow> processMeal cm cfg gen k meal imgs
                   = error_result meal (TypeError_undefined ''imageUrl''))) \<and>
   r_method (error_result meal err) = ''error'' \<and>
   r_error (error_result meal err) = Some err \<and>
   r_imageUrl (error_result meal err) = None \<and>
   (get_property (loadCuisineMap (Inl err)) key = Nullish)
     = (key \<notin> set (Map_prototype_names @ Object_prototype_names))"
proof -
  have a: "findBestImageMatch cm cfg n e v imgs = Inl (TypeError_undefined ''imageUrl'')"
    if "scan_images cfg n e v initial_state imgs = Inr st" "bestMatch st = Some m"
       "get_property cm (property_key (img_name m)) = Nullish"
    using that by (rule findBestImageMatch_missing_cuisine)
  have b: "processMeal cm cfg gen k meal imgs = error_result meal (TypeError_undefined ''imageUrl'')"
    if "scan_images cfg n e v initial_state imgs = Inr st" "bestMatch st = Some m"
       "get_property cm (property_key (img_name m)) = Nullish"
       "gen k (meal_name meal) = Inr e" "meal_name meal = n" "meal_isVegetarian meal = v"
    using a [OF that(1,2,3)] that(4,5,6) by (simp add: processMeal_def)
  have c: "(get_property (loadCuisineMap (Inl err)) key = Nullish)
             = (key \<notin> set (Map_prototype_names @ Object_prototype_names))"
    unfolding get_property_empty_map by simp
  have d: "r_method (error_result meal err) = ''error'' \<and>
           r_error (error_result meal err) = Some err \<and>
           r_imageUrl (error_result meal err) = None"
    by (simp add: error_result_def)
  from a b c d show ?thesis by blast
qed

text \<open>
  C9 at a concrete input: the cuisine file failed to load, the catalog holds the dal
  image, which qualifies by cosine for the meal \<open>Dal\<close>; the name \<open>Dal\<close> reads as
  \<open>undefined\<close>, the call throws and the meal is recorded as an error.
\<close>

theorem missing_cuisine_throws_witness:
  "scan_images (CONFIG default_env) ''Dal'' [Num 1, Num 0] True initial_state [dal_image]
     = Inr (initial_state\<lparr> bestMatch := Some dal_image, bestCosineScore := Num 1,
                           method_str := ''cosine'',
                           reason := Cosine_similarity (Num 1) (Num 0.2) \<rparr>) \<and>
   get_property empty_map (property_key (img_name dal_image)) = Nullish \<and>
   findBestImageMatch empty_map (CONFIG default_env) ''Dal'' [Num 1, Num 0] True [dal_image]
     = Inl (TypeError_undefined ''imageUrl'') \<and>
   processMeal empty_map (CONFIG default_env) (\<lambda>k name. Inr [Num 1, Num 0]) 0
       \<lparr> meal_id = Request_id 0, meal_name = ''Dal'', meal_isVegetarian = True \<rparr> [dal_image]
     = error_result \<lparr> meal_id = Request_id 0, meal_name = ''Dal'', meal_isVegetarian = True \<rparr>
         (TypeError_undefined ''imageUrl'')"
proof -
  let ?c = "initial_state\<lparr> bestMatch := Some dal_image, bestCosineScore := Num 1,
                           method_str := ''cosine'',
                           reason := Cosine_similarity (Num 1) (Num 0.2) \<rparr>"
  let ?meal = "\<lparr> meal_id = Request_id 0, meal_name = ''Dal'', meal_isVegetarian = True \<rparr>"
  have sc: "scan_images (CONFIG default_env) ''Dal'' [Num 1, Num 0] True initial_state [dal_image]
              = Inr ?c"
    by (simp add: selector_defs dal_image_def cosine_same_axis)
  have bm: "bestMatch ?c = Some dal_image" by simp
  have g: "get_property empty_map (property_key (img_name dal_image)) = Nullish"
    by (simp add: dal_image_def property_key_def empty_map_Dal)
  note inst = missing_cuisine_throws
                [of "CONFIG default_env" "''Dal''" "[Num 1, Num 0]" True "[dal_image]" ?c dal_image
                    empty_map "\<lambda>k name. Inr [Num 1, Num 0]" 0 ?meal]
  from inst sc bm g
  have w1: "findBestImageMatch empty_map (CONFIG default_env) ''Dal'' [Num 1, Num 0] True [dal_image]
              = Inl (TypeError_undefined ''imageUrl'')"
    by blast
  from inst sc bm g
  have w2: "processMeal empty_map (CONFIG default_env) (\<lambda>k name. Inr [Num 1, Num 0]) 0 ?meal
              [dal_image] = error_result ?meal (TypeError_undefined ''imageUrl'')"
    by simp
  from sc g w1 w2 show ?thesis by blast
qed

text \<open>
  C9 as stated fails for a name that a \<open>Map\<close> inherits. The cuisine file failed to load,
  so the map has no key at all; the image named \<open>constructor\<close> qualifies by cosine, and
  the read of the map under that name finds the inherited constructor, whose
  \<open>imageUrl\<close> is \<open>undefined\<close>: the call returns a result with method \<open>cosine\<close> and no
  url instead of throwing.
\<close>

theorem inherited_name_counterexample:
  "own empty_map ''constructor'' = None \<and>
   findBestImageMatch empty_map (CONFIG default_env) ''Dal'' [Num 1, Num 0] True
       [constructor_image]
     = Inr \<lparr> res_bestMatch = Some constructor_image, res_cosineScore = Num 1,
             res_textScore = Num 0, res_method = ''cosine'',
             res_reason = Cosine_similarity (Num 1) (Num 0.2), res_url = None \<rparr>"
  by (simp add: selector_defs constructor_image_def cosine_same_axis empty_map_constructor)
    (simp add: empty_map_def loadCuisineMap_def new_Map_def)

section \<open>Properties of the batch\<close>


lemma processMealBatch_length: "length (processMealBatch cm cfg gen k meals imgs) = length meals"
  by (induction meals arbitrary: k) simp_all

lemma processMealBatch_nth:
  "i < length meals \<Longrightarrow>
   processMealBatch cm cfg gen k meals imgs ! i = processMeal cm cfg gen (k + i) (meals ! i) imgs"
proof (induction meals arbitrary: k i)
  case Nil
  then show ?case by simp
next
  case (Cons meal meals)
  show ?case
  proof (cases i)
    case 0
    then show ?thesis by simp
  next
    case (Suc j)
    with Cons.prems have "j < length meals" by simp
    from Cons.IH [OF this, of "Suc k"] Suc show ?thesis by simp
  qed
qed







text \<open>
  Claim C8. \<open>processMealBatch\<close> returns exactly one entry per meal, in order, and the
  entry of a meal is what the round of that meal alone produces. When the embedding
  provider throws for a meal, or \<open>findBestImageMatch\<close> throws for it, that entry is the
  error entry: the meal's id and name, no image, method \<open>error\<close> and the error.
\<close>

theorem per_meal_error_isolation:
  "length (processMealBatch cm cfg gen k meals imgs) = length meals \<and>
   (\<forall>i < length meals.
      processMealBatch cm cfg gen k meals imgs ! i
        = processMeal cm cfg gen (k + i) (meals ! i) imgs) \<and>
   (gen j (meal_name meal) = Inl err
      \<longrightarrow> processMeal cm cfg gen j meal imgs = error_result meal err) \<and>
   (gen j (meal_name meal) = Inr emb \<and>
    findBestImageMatch cm cfg (meal_name meal) emb (meal_isVegetarian meal) imgs = Inl err
      \<longrightarrow> processMeal cm cfg gen j meal imgs = error_result meal err) \<and>
   r_method (error_result meal err) = ''error'' \<and>
   r_error (error_result meal err) = Some err \<and>
   r_imageUrl (error_result meal err) = None \<and>
   r_mealId (error_result meal err) = meal_id meal \<and>
   r_mealName (error_result meal err) = meal_name meal"
proof -
  have e: "r_method (error_result meal err) = ''error'' \<and>
           r_error (error_result meal err) = Some err \<and>
           r_imageUrl (error_result meal err) = None \<and>
           r_mealId (error_result meal err) = meal_id meal \<and>
           r_mealName (error_result meal err) = meal_name meal"
    by (simp add: error_result_def)
  have p3: "gen j (meal_name meal) = Inl err \<Longrightarrow>
            processMeal cm cfg gen j meal imgs = error_result meal err"
    by (simp add: processMeal_def)
  have p4: "gen j (meal_name meal) = Inr emb \<Longrightarrow>
      findBestImageMatch cm cfg (meal_name meal) emb (meal_isVegetarian meal) imgs = Inl err \<Longrightarrow>
      processMeal cm cfg gen j meal imgs = error_result meal err"
    by (simp add: processMeal_def)
  from e p3 p4 processMealBatch_length [of cm cfg gen k meals imgs]
    processMealBatch_nth [of _ meals cm cfg gen k imgs]
  show ?thesis by blast
qed

text \<open>
  C8 at a concrete input: a batch of three meals for which the second call of the
  embedding provider throws. The batch has three entries; the second is the error entry
  with the provider's error; the third meal is processed after it and matched.
\<close>

theorem per_meal_error_isolation_witness:
  "length (processMealBatch example_map (CONFIG default_env)
             (\<lambda>k name. if k = 1 then Inl (Error ''OpenAI API error: 500'') else Inr [Num 1, Num 0]) 0
             [\<lparr> meal_id = Request_id 0, meal_name = ''Dal'', meal_isVegetarian = True \<rparr>,
              \<lparr> meal_id = Request_id 1, meal_name = ''Roti'', meal_isVegetarian = True \<rparr>,
              \<lparr> meal_id = Request_id 2, meal_name = ''Dal'', meal_isVegetarian = True \<rparr>]
             [dal_image]) = 3 \<and>
   processMealBatch example_map (CONFIG default_env)
       (\<lambda>k name. if k = 1 then Inl (Error ''OpenAI API error: 500'') else Inr [Num 1, Num 0]) 0
       [\<lparr> meal_id = Request_id 0, meal_name = ''Dal'', meal_isVegetarian = True \<rparr>,
        \<lparr> meal_id = Request_id 1, meal_name = ''Roti'', meal_isVegetarian = True \<rparr>,
        \<lparr> meal_id = Request_id 2, meal_name = ''Dal'', meal_isVegetarian = True \<rparr>]
       [dal_image] ! 1
     = error_result \<lparr> meal_id = Request_id 1, meal_name = ''Roti'', meal_isVegetarian = True \<rparr>
         (Error ''OpenAI API error: 500'') \<and>
   processMealBatch example_map (CONFIG default_env)
       (\<lambda>k name. if k = 1 then Inl (Error ''OpenAI API error: 500'') else Inr [Num 1, Num 0]) 0
       [\<lparr> meal_id = Request_id 0, meal_name = ''Dal'', meal_isVegetarian = True \<rparr>,
        \<lparr> meal_id = Request_id 1, meal_name = ''Roti'', meal_isVegetarian = True \<rparr>,
        \<lparr> meal_id = Request_id 2, meal_name = ''Dal'', meal_isVegetarian = True \<rparr>]
       [dal_image] ! 2
     = \<lparr> r_mealId = Request_id 2, r_mealName = ''Dal'',
         r_imageUrl = Some ''https://img/dal.jpg'', r_imageName = Some ''Dal'',
         r_cosineScore = Some (Num 1), r_textScore = Some (Num 0), r_method = ''cosine'',
         r_reason = Some (Cosine_similarity (Num 1) (Num 0.2)),
         r_mealIsVegetarian = Some True, r_imageIsVegetarian = Some True, r_error = None \<rparr>"
proof -
  let ?gen = "\<lambda>k name. if k = (1::nat) then Inl (Error ''OpenAI API error: 500'')
                         else Inr [Num 1, Num 0]"
  let ?m0 = "\<lparr> meal_id = Request_id 0, meal_name = ''Dal'', meal_isVegetarian = True \<rparr>"
  let ?m1 = "\<lparr> meal_id = Request_id 1, meal_name = ''Roti'', meal_isVegetarian = True \<rparr>"
  let ?m2 = "\<lparr> meal_id = Request_id 2, meal_name = ''Dal'', meal_isVegetarian = True \<rparr>"
  let ?batch = "processMealBatch example_map (CONFIG default_env) ?gen 0 [?m0, ?m1, ?m2] [dal_image]"
  note inst = per_meal_error_isolation
                [of example_map "CONFIG default_env" ?gen 0 "[?m0, ?m1, ?m2]" "[dal_image]" 1 ?m1
                    "Error ''OpenAI API error: 500''" "[Num 1, Num 0]"]
  from inst have len: "length ?batch = 3" by simp
  from inst have nth: "?batch ! i
      = processMeal example_map (CONFIG default_env) ?gen (0 + i) ([?m0, ?m1, ?m2] ! i) [dal_image]"
    if "i < length [?m0, ?m1, ?m2]" for i
    using that by blast
  have thrown: "?gen 1 (meal_name ?m1) = Inl (Error ''OpenAI API error: 500'')" by simp
  with inst have "processMeal example_map (CONFIG default_env) ?gen 1 ?m1 [dal_image]
                    = error_result ?m1 (Error ''OpenAI API error: 500'')"
    by blast
  with nth [of 1] have second: "?batch ! 1 = error_result ?m1 (Error ''OpenAI API error: 500'')"
    by simp
  have "processMeal example_map (CONFIG default_env) ?gen 2 ?m2 [dal_image]
     = \<lparr> r_mealId = Request_id 2, r_mealName = ''Dal'',
         r_imageUrl = Some ''https://img/dal.jpg'', r_imageName = Some ''Dal'',
         r_cosineScore = Some (Num 1), r_textScore = Some (Num 0), r_method = ''cosine'',
         r_reason = Some (Cosine_similarity (Num 1) (Num 0.2)),
         r_mealIsVegetarian = Some True, r_imageIsVegetarian = Some True, r_error = None \<rparr>"
    by (simp add: processMeal_def selector_defs dal_image_def cosine_same_axis example_map_Dal
        or_null_def falsy_def)
  with nth [of 2] have third: "?batch ! 2
     = \<lparr> r_mealId = Request_id 2, r_mealName = ''Dal'',
         r_imageUrl = Some ''https://img/dal.jpg'', r_imageName = Some ''Dal'',
         r_cosineScore = Some (Num 1), r_textScore = Some (Num 0), r_method = ''cosine'',
         r_reason = Some (Cosine_similarity (Num 1) (Num 0.2)),
         r_mealIsVegetarian = Some True, r_imageIsVegetarian = Some True, r_error = None \<rparr>"
    by (simp add: numeral_2_eq_2)
  from len second third show ?thesis by blast
qed

section \<open>Properties of the handler\<close>

lemma request_meals_throws:
  "Unconvertible \<in> set mealNames \<Longrightarrow> request_meals index mealNames = Inl TypeError_primitive"
proof (induction mealNames arbitrary: index)
  case Nil
  then show ?case by simp
next
  case (Cons x mealNames)
  then show ?case by (cases x) auto
qed

lemma request_meals_length:
  "request_meals index mealNames = Inr meals \<Longrightarrow> length meals = length mealNames"
proof (induction mealNames arbitrary: index meals)
  case Nil
  then show ?case by simp
next
  case (Cons x mealNames)
  then show ?case by (cases x) (auto split: sum.splits)
qed

lemma resolve_request_empty: "resolve_request (Parsed (Some [])) = resolve_request No_body"
  by (simp add: resolve_request_def)

lemma resolve_request_throws:
  "Unconvertible \<in> set mealNames \<Longrightarrow> resolve_request (Parsed (Some mealNames)) = (''request'', [])"
  by (auto simp: resolve_request_def processRequestMeals_def request_meals_throws)

lemma batch_loop_done:
  "length mealsToProcess \<le> i \<Longrightarrow>
   batch_loop w cm cfg imgs mealsToProcess i allResults n = Inr (allResults, n)"
  by (subst batch_loop.simps) simp

lemma handler_fetch_mode:
  "rsp_mode (fst (handler w env cache No_body)) = ''fetch'' \<and>
   rsp_message (fst (handler w env cache No_body)) \<noteq> Some ''No meal names provided in request''"
  by (simp add: handler_def resolve_request_def error_response_def
      split: option.splits sum.splits prod.splits)

lemma handler_no_unmapped_meals:
  assumes "(\<exists>loaded. cache = Some loaded) \<or> (\<exists>embeddings. w_embeddingsData w = Inr embeddings)"
    and "w_unmappedMeals w = Inr []"
  shows "fst (handler w env cache No_body)
     = \<lparr> rsp_statusCode = 200, rsp_message = Some ''No unmapped meals found'', rsp_error = None,
         rsp_mode = ''fetch'', rsp_processedCount = 0, rsp_successfulMappings = None,
         rsp_results = None, rsp_mealImageMappings = None \<rparr>"
  using assms
  by (auto simp: handler_def resolve_request_def split: option.splits sum.splits prod.splits)

text \<open>
  The request-mode message is answered when \<open>mealNames\<close> is a non-empty array with an
  element that cannot be converted to a string: the mode is already \<open>request\<close> when
  \<open>processRequestMeals\<close> throws, the error is swallowed, nothing is fetched and there is
  no meal to process.
\<close>

lemma handler_request_names_throw:
  assumes "(\<exists>loaded. cache = Some loaded) \<or> (\<exists>embeddings. w_embeddingsData w = Inr embeddings)"
    and "Unconvertible \<in> set mealNames"
  shows "fst (handler w env cache (Parsed (Some mealNames)))
     = \<lparr> rsp_statusCode = 200, rsp_message = Some ''No meal names provided in request'',
         rsp_error = None, rsp_mode = ''request'', rsp_processedCount = 0,
         rsp_successfulMappings = None, rsp_results = None, rsp_mealImageMappings = None \<rparr>"
  using assms(1)
  by (auto simp: handler_def resolve_request_throws [OF assms(2)]
      split: option.splits sum.splits prod.splits)

text \<open>
  Claim C3, as the code has it. A body whose \<open>mealNames\<close> is an empty array leaves the
  mode at \<open>fetch\<close>, so the invocation answers exactly as one without a body: the mode of
  the answer is \<open>fetch\<close>, its message is not the request-mode message
  \<open>No meal names provided in request\<close>, and when the data is loaded and the store lists
  no unmapped meal the answer is the fetch-mode one, with the message
  \<open>No unmapped meals found\<close> and \<open>processedCount\<close> 0.
\<close>

theorem empty_mealNames_is_fetch_mode:
  "handler w env cache (Parsed (Some [])) = handler w env cache No_body \<and>
   rsp_mode (fst (handler w env cache (Parsed (Some [])))) = ''fetch'' \<and>
   rsp_message (fst (handler w env cache (Parsed (Some []))))
     \<noteq> Some ''No meal names provided in request'' \<and>
   (((\<exists>loaded. cache = Some loaded) \<or> (\<exists>embeddings. w_embeddingsData w = Inr embeddings)) \<and>
    w_unmappedMeals w = Inr []
      \<longrightarrow> fst (handler w env cache (Parsed (Some [])))
            = \<lparr> rsp_statusCode = 200, rsp_message = Some ''No unmapped meals found'',
                rsp_error = None, rsp_mode = ''fetch'', rsp_processedCount = 0,
                rsp_successfulMappings = None, rsp_results = None,
                rsp_mealImageMappings = None \<rparr>)"
proof -
  have a: "handler w env cache (Parsed (Some [])) = handler w env cache No_body"
    by (simp only: handler_def resolve_request_empty)
  from handler_fetch_mode [of w env cache] handler_no_unmapped_meals [of cache w env]
  show ?thesis unfolding a by blast
qed

text \<open>
  C3 at a concrete input: the data is cached from an earlier invocation, the store lists
  no unmapped meal and the body is \<open>{"mealNames": []}\<close>. The answer is that of an
  invocation without a body: mode \<open>fetch\<close>, the fetch-mode message, nothing processed.
\<close>

theorem empty_mealNames_is_fetch_mode_witness:
  "handler
     \<lparr> w_cuisinesData = Inr example_cuisines, w_embeddingsData = Inr [dal_image],
       w_unmappedMeals = Inr [],
       w_generateMealEmbedding = (\<lambda>k name. Inr [Num 1, Num 0]),
       w_remainingTime = (\<lambda>k. 300000), w_updateFirestoreMappings = (\<lambda>k rs. None) \<rparr>
     default_env (Some (example_map, [dal_image])) (Parsed (Some []))
     = handler
         \<lparr> w_cuisinesData = Inr example_cuisines, w_embeddingsData = Inr [dal_image],
           w_unmappedMeals = Inr [],
           w_generateMealEmbedding = (\<lambda>k name. Inr [Num 1, Num 0]),
           w_remainingTime = (\<lambda>k. 300000), w_updateFirestoreMappings = (\<lambda>k rs. None) \<rparr>
         default_env (Some (example_map, [dal_image])) No_body \<and>
   fst (handler
          \<lparr> w_cuisinesData = Inr example_cuisines, w_embeddingsData = Inr [dal_image],
            w_unmappedMeals = Inr [],
            w_generateMealEmbedding = (\<lambda>k name. Inr [Num 1, Num 0]),
            w_remainingTime = (\<lambda>k. 300000), w_updateFirestoreMappings = (\<lambda>k rs. None) \<rparr>
          default_env (Some (example_map, [dal_image])) (Parsed (Some [])))
     = \<lparr> rsp_statusCode = 200, rsp_message = Some ''No unmapped meals found'', rsp_error = None,
         rsp_mode = ''fetch'', rsp_processedCount = 0, rsp_successfulMappings = None,
         rsp_results = None, rsp_mealImageMappings = None \<rparr>"
proof -
  let ?w = "\<lparr> w_cuisinesData = Inr example_cuisines, w_embeddingsData = Inr [dal_image],
            w_unmappedMeals = Inr [],
            w_generateMealEmbedding = (\<lambda>(k::nat) (name::string). (Inr [Num 1, Num 0] :: js_error + jsnum list)),
            w_remainingTime = (\<lambda>k. 300000), w_updateFirestoreMappings = (\<lambda>k rs. None) \<rparr>"
  note inst = empty_mealNames_is_fetch_mode [of ?w default_env "Some (example_map, [dal_image])"]
  have h: "(\<exists>loaded. Some (example_map, [dal_image]) = Some loaded)" "w_unmappedMeals ?w = Inr []"
    by simp_all
  from inst have eq: "handler ?w default_env (Some (example_map, [dal_image])) (Parsed (Some []))
                        = handler ?w default_env (Some (example_map, [dal_image])) No_body"
    by blast
  from inst h have "fst (handler ?w default_env (Some (example_map, [dal_image])) (Parsed (Some [])))
     = \<lparr> rsp_statusCode = 200, rsp_message = Some ''No unmapped meals found'', rsp_error = None,
         rsp_mode = ''fetch'', rsp_processedCount = 0, rsp_successfulMappings = None,
         rsp_results = None, rsp_mealImageMappings = None \<rparr>"
    by blast
  with eq show ?thesis by blast
qed

text \<open>
  C3 as stated fails. With the body \<open>{"mealNames": []}\<close> and an empty store, the answer
  carries the fetch-mode message and mode \<open>fetch\<close>, not the request-mode message; with
  one unmapped meal in the store, that meal is fetched, processed and matched, and
  \<open>processedCount\<close> is 1.
\<close>

theorem empty_mealNames_counterexample:
  "fst (handler
          \<lparr> w_cuisinesData = Inr example_cuisines, w_embeddingsData = Inr [dal_image],
            w_unmappedMeals = Inr [],
            w_generateMealEmbedding = (\<lambda>k name. Inr [Num 1, Num 0]),
            w_remainingTime = (\<lambda>k. 300000), w_updateFirestoreMappings = (\<lambda>k rs. None) \<rparr>
          default_env None (Parsed (Some [])))
     = \<lparr> rsp_statusCode = 200, rsp_message = Some ''No unmapped meals found'', rsp_error = None,
         rsp_mode = ''fetch'', rsp_processedCount = 0, rsp_successfulMappings = None,
         rsp_results = None, rsp_mealImageMappings = None \<rparr> \<and>
   fst (handler
          \<lparr> w_cuisinesData = Inr example_cuisines, w_embeddingsData = Inr [dal_image],
            w_unmappedMeals =
              Inr [\<lparr> meal_id = Document_id ''doc1'', meal_name = ''Dal'', meal_isVegetarian = True \<rparr>],
            w_generateMealEmbedding = (\<lambda>k name. Inr [Num 1, Num 0]),
            w_remainingTime = (\<lambda>k. 300000), w_updateFirestoreMappings = (\<lambda>k rs. None) \<rparr>
          default_env None (Parsed (Some [])))
     = \<lparr> rsp_statusCode = 200, rsp_message = Some ''Meal-image mapping completed'',
         rsp_error = None, rsp_mode = ''fetch'', rsp_processedCount = 1,
         rsp_successfulMappings = Some 1,
         rsp_results =
           Some [\<lparr> r_mealId = Document_id ''doc1'', r_mealName = ''Dal'',
                   r_imageUrl = Some ''https://img/dal.jpg'', r_imageName = Some ''Dal'',
                   r_cosineScore = Some (Num 1), r_textScore = Some (Num 0),
                   r_method = ''cosine'',
                   r_reason = Some (Cosine_similarity (Num 1) (Num 0.2)),
                   r_mealIsVegetarian = Some True, r_imageIsVegetarian = Some True,
                   r_error = None \<rparr>],
         rsp_mealImageMappings = None \<rparr>"
proof -
  let ?gen = "\<lambda>(k::nat) (name::string). (Inr [Num 1, Num 0] :: js_error + jsnum list)"
  let ?meal = "\<lparr> meal_id = Document_id ''doc1'', meal_name = ''Dal'', meal_isVegetarian = True \<rparr>"
  let ?entry = "\<lparr> r_mealId = Document_id ''doc1'', r_mealName = ''Dal'',
                   r_imageUrl = Some ''https://img/dal.jpg'', r_imageName = Some ''Dal'',
                   r_cosineScore = Some (Num 1), r_textScore = Some (Num 0),
                   r_method = ''cosine'',
                   r_reason = Some (Cosine_similarity (Num 1) (Num 0.2)),
                   r_mealIsVegetarian = Some True, r_imageIsVegetarian = Some True,
                   r_error = None \<rparr>"
  let ?w = "\<lparr> w_cuisinesData = Inr example_cuisines, w_embeddingsData = Inr [dal_image],
            w_unmappedMeals = Inr [?meal],
            w_generateMealEmbedding = ?gen,
            w_remainingTime = (\<lambda>k. 300000), w_updateFirestoreMappings = (\<lambda>k rs. None) \<rparr>"
  have c: "fst (handler
          \<lparr> w_cuisinesData = Inr example_cuisines, w_embeddingsData = Inr [dal_image],
            w_unmappedMeals = Inr [],
            w_generateMealEmbedding = (\<lambda>k name. Inr [Num 1, Num 0]),
            w_remainingTime = (\<lambda>k. 300000), w_updateFirestoreMappings = (\<lambda>k rs. None) \<rparr>
          default_env None (Parsed (Some [])))
     = \<lparr> rsp_statusCode = 200, rsp_message = Some ''No unmapped meals found'', rsp_error = None,
         rsp_mode = ''fetch'', rsp_processedCount = 0, rsp_successfulMappings = None,
         rsp_results = None, rsp_mealImageMappings = None \<rparr>"
    by (simp add: handler_def resolve_request_def)
  have one: "processMeal example_map (CONFIG default_env) ?gen 0 ?meal [dal_image] = ?entry"
    by (simp add: processMeal_def selector_defs dal_image_def cosine_same_axis example_map_Dal
        or_null_def falsy_def)
  have bs: "MAX_MEALS_PER_BATCH (CONFIG default_env) = 50" by (simp add: CONFIG_default)
  have loop: "batch_loop ?w example_map (CONFIG default_env) [dal_image] [?meal] 0 [] 0
                = Inr ([?entry], 1)"
    by (subst batch_loop.simps) (simp add: bs one batch_loop_done)
  have d: "fst (handler ?w default_env None (Parsed (Some [])))
     = \<lparr> rsp_statusCode = 200, rsp_message = Some ''Meal-image mapping completed'',
         rsp_error = None, rsp_mode = ''fetch'', rsp_processedCount = 1,
         rsp_successfulMappings = Some 1, rsp_results = Some [?entry],
         rsp_mealImageMappings = None \<rparr>"
    by (simp add: handler_def resolve_request_def example_map_def [symmetric] loop
        is_mapped_def falsy_def)
  from c d show ?thesis by blast
qed

end
